theory Spec2Isabelle
  imports Main "HOL-Library.Sublist"
begin

section \<open>HealthConnect backend: the request handlers of server.js\<close>

text \<open>
  The server is one file of Express route handlers. Each handler reads fields of the parsed
  JSON body, writes one document through the MongoDB driver, may send one email through
  nodemailer and answers with a status and a JSON body. The handlers are embedded as
  functions from the request body, the database contents and the answers of the outside
  world (storage, mail relay, completion API, clock, salt) to the response, the new database
  contents and the list of outside calls made.
\<close>

subsection \<open>JavaScript values\<close>

text \<open>
  The values a handler sees: what \<open>JSON.parse\<close> produces, \<open>undefined\<close> for an absent
  property, and \<open>Date\<close> objects made by \<open>new Date()\<close>. An object is the list of its own
  properties. Numbers are never computed with; they are kept as integers.
\<close>

datatype jsval =
    Undefined
  | Null
  | Bool bool
  | Num int
  | Str string
  | Date int
  | Arr "jsval list"
  | Obj "(string \<times> jsval) list"

type_synonym document = "(string \<times> jsval) list"

text \<open>Property access \<open>obj.k\<close>: an absent property reads as \<open>undefined\<close>.\<close>

definition property :: "document \<Rightarrow> string \<Rightarrow> jsval" where
  "property obj k = (case map_of obj k of None \<Rightarrow> Undefined | Some v \<Rightarrow> v)"

text \<open>
  String conversion inside a template literal (\<open>${v}\<close>) and inside \<open>Array.prototype.join\<close>.
  Only whether it completes is modelled. It throws a TypeError exactly for an object whose
  own property \<open>toString\<close> hides \<open>Object.prototype.toString\<close> (a parsed JSON value is never
  callable, and \<open>Object.prototype.valueOf\<close> returns the object itself); an array converts its
  elements in turn.
\<close>

fun stringifies :: "jsval \<Rightarrow> bool" where
  "stringifies (Obj kvs) = (''toString'' \<notin> set (map fst kvs))"
| "stringifies (Arr xs) = (\<forall>x \<in> set xs. stringifies x)"
| "stringifies v = True"

text \<open>\<open>goals.join(', ')\<close> needs an array: any other parsed JSON value has no callable \<open>join\<close>.\<close>

fun is_array :: "jsval \<Rightarrow> bool" where
  "is_array (Arr xs) = True"
| "is_array v = False"

text \<open>
  \<open>String.prototype.toLowerCase\<close> on the letters A to Z; every other character is kept
  (strings are modelled as ASCII; the keyword table is ASCII).
\<close>

definition lower_char :: "char \<Rightarrow> char" where
  "lower_char c =
     (case map_of (zip ''ABCDEFGHIJKLMNOPQRSTUVWXYZ'' ''abcdefghijklmnopqrstuvwxyz'') c of
        None \<Rightarrow> c
      | Some l \<Rightarrow> l)"

definition toLowerCase :: "string \<Rightarrow> string" where
  "toLowerCase s = map lower_char s"

text \<open>\<open>s.includes(k)\<close>: \<open>k\<close> occurs in \<open>s\<close> as a contiguous substring.\<close>

fun includes_str :: "string \<Rightarrow> string \<Rightarrow> bool" where
  "includes_str [] k = (k = [])"
| "includes_str (c # cs) k = (prefix k (c # cs) \<or> includes_str cs k)"

subsection \<open>Errors, responses, outside calls\<close>

text \<open>
  The two exceptions that can leave a handler: a TypeError of the language, and the
  "Illegal arguments" rejection of \<open>bcrypt.hash\<close>. Storage, mail and upstream failures are
  answers of the outside world (see \<open>env\<close>): every handler catches them.
\<close>

datatype js_error = TypeError | IllegalArguments

record response =
  status :: nat
  json :: jsval

text \<open>
  A handler either sends a response, or an exception leaves it. The handlers are \<open>async\<close>
  functions: the exception rejects the promise the handler returned, and the handler
  itself has sent no response.
\<close>

datatype outcome = Responded response | Unhandled js_error

text \<open>
  An email as handed to \<open>transporter.sendMail\<close>. The field \<open>html\<close> holds the values
  substituted into the template, in order; the fixed prose between them is left out, and
  so is \<open>from\<close>, which is configuration.
\<close>

record mail =
  to :: jsval
  subject :: string
  html :: "jsval list"

datatype call =
    FindOne string jsval
  | InsertOne string document
  | SendMail mail
  | Completion string

text \<open>
  The answers of the outside world during one request: whether \<open>findOne\<close>, \<open>insertOne\<close>
  and \<open>sendMail\<close> complete, what the completion API returns (\<open>None\<close>: the call throws),
  the clock read by \<open>new Date()\<close>, and the salt \<open>bcrypt.hash\<close> draws.
\<close>

record env =
  find_ok :: bool
  insert_ok :: bool
  mail_ok :: bool
  completion :: "jsval option"
  now :: int
  salt :: nat

text \<open>
  The bcryptjs library is a parameter: \<open>bcrypt_hash p s\<close> is the encoded hash of password
  \<open>p\<close> under salt \<open>s\<close>, \<open>bcrypt_compare p h\<close> is \<open>bcrypt.compare(p, h)\<close> on two strings.
\<close>

record bcrypt =
  bcrypt_hash :: "string \<Rightarrow> nat \<Rightarrow> string"
  bcrypt_compare :: "string \<Rightarrow> string \<Rightarrow> bool"

subsection \<open>Persistence gateway\<close>

text \<open>The database: collection name to the documents of the collection, oldest first.\<close>

type_synonym database = "string \<Rightarrow> document list"

text \<open>
  Modelled from the spec: the MongoDB driver is not part of the repository. Section 4.1:
  \<open>insertOne(collection, document)\<close> appends a document and never validates schema. The
  generated identifier it returns is only logged by the handlers and is left out.
\<close>

definition insertOne :: "database \<Rightarrow> string \<Rightarrow> document \<Rightarrow> database" where
  "insertOne db c d = db(c := db c @ [d])"

text \<open>
  Modelled from the spec: the MongoDB driver is not part of the repository. Section 4.1:
  \<open>findOne(collection, filter)\<close> returns the first matching document or a not-found signal.
  The only filter the handlers build is \<open>{ email }\<close>, equality on one field.
\<close>

definition findOne :: "database \<Rightarrow> string \<Rightarrow> string \<Rightarrow> jsval \<Rightarrow> document option" where
  "findOne db c field v = find (\<lambda>d. property d field = v) (db c)"

text \<open>What a handler leaves behind: its outcome, the database and the outside calls it made.\<close>

record result =
  outcome :: outcome
  store :: database
  calls :: "call list"

definition respond :: "nat \<Rightarrow> jsval \<Rightarrow> outcome" where
  "respond code body = Responded \<lparr>status = code, json = body\<rparr>"

text \<open>The body \<open>{ success, message }\<close> most handlers answer with.\<close>

definition success_message :: "bool \<Rightarrow> string \<Rightarrow> jsval" where
  "success_message ok msg = Obj [(''success'', Bool ok), (''message'', Str msg)]"

subsection \<open>Conversational responder: POST /chat\<close>

definition response_hello :: string where
  "response_hello = ''Hello! Welcome to HealthConnect. How can I assist you today?''"

definition response_hi :: string where
  "response_hi = ''Hi there! How can I help you?''"

definition response_workout_splits :: string where
  "response_workout_splits = concat
    [''Here are some popular workout splits:\<newline>'',
     ''1. **Full Body (3 days/week)**: Work all major muscle groups in each session.\<newline>'',
     ''2. **Upper/Lower (4 days/week)**: Alternate between upper and lower body workouts.\<newline>'',
     ''3. **Push/Pull/Legs (6 days/week)**: Focus on pushing, pulling, and leg exercises.\<newline>'',
     ''Which one are you interested in?'']"

definition response_diet_plans :: string where
  "response_diet_plans = concat
    [''Here are some diet plans based on your goal:\<newline>'',
     ''1. **Weight Loss**: High-protein, low-carb, and calorie-deficit meals.\<newline>'',
     ''2. **Muscle Gain**: High-protein, moderate-carb, and calorie-surplus meals.\<newline>'',
     ''3. **Vegetarian**: Plant-based protein sources like beans, lentils, and tofu.\<newline>'',
     ''What's your goal?'']"

definition response_fitness_advice :: string where
  "response_fitness_advice = concat
    [''Here are some general fitness tips:\<newline>'',
     ''1. **Workout Frequency**: 3-5 times per week for optimal results.\<newline>'',
     ''2. **Build Muscle**: Focus on progressive overload and proper nutrition.\<newline>'',
     ''3. **Improve Cardio**: Incorporate HIIT or steady-state cardio into your routine.\<newline>'',
     ''Do you have a specific question?'']"

definition response_default :: string where
  "response_default = ''I'm sorry, I didn't understand that. Can you please rephrase or ask something else?''"

text \<open>
  The object \<open>responses\<close>, as the list of its properties in insertion order, the order in
  which \<open>for (const key in responses)\<close> visits them. The key \<open>default\<close> is one of them.
\<close>

definition responses :: "(string \<times> string) list" where
  "responses =
     [(''hello'', response_hello),
      (''hi'', response_hi),
      (''workout splits'', response_workout_splits),
      (''diet plans'', response_diet_plans),
      (''fitness advice'', response_fitness_advice),
      (''default'', response_default)]"

definition apology :: string where
  "apology = ''Sorry, I couldn't fetch the information at the moment. Please try again later.''"

text \<open>The loop with its \<open>break\<close>: the first key that the message includes decides.\<close>

fun match_response :: "(string \<times> string) list \<Rightarrow> string \<Rightarrow> string \<Rightarrow> string" where
  "match_response [] userMessage botResponse = botResponse"
| "match_response ((key, r) # rest) userMessage botResponse =
     (if includes_str userMessage key then r else match_response rest userMessage botResponse)"

definition chat :: "env \<Rightarrow> database \<Rightarrow> document \<Rightarrow> result" where
  "chat e db body =
     (case property body ''message'' of
        Str message \<Rightarrow>
          let userMessage = toLowerCase message;
              matched = match_response responses userMessage response_default;
              ask = (matched = response_default);
              botResponse =
                (if ask
                 then (case completion e of Some v \<Rightarrow> v | None \<Rightarrow> Str apology)
                 else Str matched);
              conversation =
                [(''userMessage'', Str userMessage),
                 (''botResponse'', botResponse),
                 (''timestamp'', Date (now e))]
          in \<lparr>outcome = respond 200 (Obj [(''message'', botResponse)]),
              store = (if insert_ok e then insertOne db ''chatHistory'' conversation else db),
              calls = (if ask then [Completion userMessage] else [])
                        @ [InsertOne ''chatHistory'' conversation]\<rparr>
      | _ \<Rightarrow> \<lparr>outcome = Unhandled TypeError, store = db, calls = []\<rparr>)"

text \<open>
  The keyword table of the specification: the five keywords in order, without the
  \<open>default\<close> entry.
\<close>

definition keyword_table :: "(string \<times> string) list" where
  "keyword_table = filter (\<lambda>(key, r). key \<noteq> ''default'') responses"

subsection \<open>POST /api/subscribe\<close>

definition subscribe :: "env \<Rightarrow> database \<Rightarrow> document \<Rightarrow> result" where
  "subscribe e db body =
     (let email = property body ''email'';
          look = FindOne ''subscriptions'' email
      in if \<not> find_ok e
         then \<lparr>outcome = respond 500 (success_message False ''Something went wrong. Please try again.''),
               store = db, calls = [look]\<rparr>
         else
           (case findOne db ''subscriptions'' ''email'' email of
              Some existingSubscription \<Rightarrow>
                \<lparr>outcome = respond 400 (success_message False ''Email already subscribed.''),
                 store = db, calls = [look]\<rparr>
            | None \<Rightarrow>
                let newSubscription = [(''email'', email), (''createdAt'', Date (now e))];
                    ins = InsertOne ''subscriptions'' newSubscription
                in if insert_ok e
                   then \<lparr>outcome = respond 201 (success_message True ''Thank you for subscribing!''),
                         store = insertOne db ''subscriptions'' newSubscription,
                         calls = [look, ins]\<rparr>
                   else \<lparr>outcome = respond 500 (success_message False ''Something went wrong. Please try again.''),
                         store = db, calls = [look, ins]\<rparr>))"

subsection \<open>Diet plan generator and POST /send-diet-plan\<close>

definition plan_weight_loss_vegetarian :: string where
  "plan_weight_loss_vegetarian = concat
    [''\<newline>'',
     ''          <h2>Vegetarian Weight Loss Diet Plan</h2>\<newline>'',
     ''          <ul>\<newline>'',
     ''            <li><strong>7:00 AM - Breakfast:</strong> Oatmeal with fruits and a handful of nuts</li>\<newline>'',
     ''            <li><strong>10:00 AM - Snack:</strong> Greek yogurt with honey</li>\<newline>'',
     ''            <li><strong>1:00 PM - Lunch:</strong> Quinoa salad with mixed vegetables and a side of avocado</li>\<newline>'',
     ''            <li><strong>4:00 PM - Snack:</strong> A small apple or a handful of almonds</li>\<newline>'',
     ''            <li><strong>7:00 PM - Dinner:</strong> Steamed vegetables with tofu and a small portion of brown rice</li>\<newline>'',
     ''            <li><strong>9:00 PM - Snack (optional):</strong> A glass of warm skim milk</li>\<newline>'',
     ''          </ul>\<newline>'',
     ''        '']"

definition plan_weight_loss_other :: string where
  "plan_weight_loss_other = concat
    [''\<newline>'',
     ''          <h2>Non-Vegetarian Weight Loss Diet Plan</h2>\<newline>'',
     ''          <ul>\<newline>'',
     ''            <li><strong>7:00 AM - Breakfast:</strong> Scrambled eggs with spinach and whole-grain toast</li>\<newline>'',
     ''            <li><strong>10:00 AM - Snack:</strong> A boiled egg or a handful of nuts</li>\<newline>'',
     ''            <li><strong>1:00 PM - Lunch:</strong> Grilled chicken breast with a side of steamed broccoli and quinoa</li>\<newline>'',
     ''            <li><strong>4:00 PM - Snack:</strong> A small apple or a handful of almonds</li>\<newline>'',
     ''            <li><strong>7:00 PM - Dinner:</strong> Grilled fish with a side of roasted vegetables</li>\<newline>'',
     ''            <li><strong>9:00 PM - Snack (optional):</strong> A glass of warm skim milk</li>\<newline>'',
     ''          </ul>\<newline>'',
     ''        '']"

definition plan_muscle_gain_vegetarian :: string where
  "plan_muscle_gain_vegetarian = concat
    [''\<newline>'',
     ''          <h2>Vegetarian Muscle Gain Diet Plan</h2>\<newline>'',
     ''          <ul>\<newline>'',
     ''            <li><strong>7:00 AM - Breakfast:</strong> Smoothie with banana, spinach, almond milk, and protein powder</li>\<newline>'',
     ''            <li><strong>10:00 AM - Snack:</strong> A handful of mixed nuts and a boiled egg</li>\<newline>'',
     ''            <li><strong>1:00 PM - Lunch:</strong> Lentil curry with brown rice and a side of avocado</li>\<newline>'',
     ''            <li><strong>4:00 PM - Snack:</strong> Greek yogurt with honey and a handful of granola</li>\<newline>'',
     ''            <li><strong>7:00 PM - Dinner:</strong> Grilled tofu with sweet potatoes and steamed vegetables</li>\<newline>'',
     ''            <li><strong>9:00 PM - Snack (optional):</strong> A glass of warm skim milk with a tablespoon of peanut butter</li>\<newline>'',
     ''          </ul>\<newline>'',
     ''        '']"

definition plan_muscle_gain_other :: string where
  "plan_muscle_gain_other = concat
    [''\<newline>'',
     ''          <h2>Non-Vegetarian Muscle Gain Diet Plan</h2>\<newline>'',
     ''          <ul>\<newline>'',
     ''            <li><strong>7:00 AM - Breakfast:</strong> Scrambled eggs with whole-grain toast and a side of avocado</li>\<newline>'',
     ''            <li><strong>10:00 AM - Snack:</strong> A boiled egg or a handful of nuts</li>\<newline>'',
     ''            <li><strong>1:00 PM - Lunch:</strong> Grilled salmon with brown rice and a side of steamed vegetables</li>\<newline>'',
     ''            <li><strong>4:00 PM - Snack:</strong> Protein shake with banana and almond milk</li>\<newline>'',
     ''            <li><strong>7:00 PM - Dinner:</strong> Grilled chicken breast with sweet potatoes and roasted vegetables</li>\<newline>'',
     ''            <li><strong>9:00 PM - Snack (optional):</strong> A glass of warm skim milk with a tablespoon of peanut butter</li>\<newline>'',
     ''          </ul>\<newline>'',
     ''        '']"

definition plan_maintain_weight_vegetarian :: string where
  "plan_maintain_weight_vegetarian = concat
    [''\<newline>'',
     ''          <h2>Vegetarian Maintain Weight Diet Plan</h2>\<newline>'',
     ''          <ul>\<newline>'',
     ''            <li><strong>7:00 AM - Breakfast:</strong> Smoothie with spinach, banana, and almond milk</li>\<newline>'',
     ''            <li><strong>10:00 AM - Snack:</strong> A handful of mixed nuts</li>\<newline>'',
     ''            <li><strong>1:00 PM - Lunch:</strong> Whole-grain pasta with pesto and a side of avocado</li>\<newline>'',
     ''            <li><strong>4:00 PM - Snack:</strong> Greek yogurt with honey</li>\<newline>'',
     ''            <li><strong>7:00 PM - Dinner:</strong> Grilled vegetables with quinoa and a side of hummus</li>\<newline>'',
     ''            <li><strong>9:00 PM - Snack (optional):</strong> A glass of warm skim milk</li>\<newline>'',
     ''          </ul>\<newline>'',
     ''        '']"

definition plan_maintain_weight_other :: string where
  "plan_maintain_weight_other = concat
    [''\<newline>'',
     ''          <h2>Non-Vegetarian Maintain Weight Diet Plan</h2>\<newline>'',
     ''          <ul>\<newline>'',
     ''            <li><strong>7:00 AM - Breakfast:</strong> Scrambled eggs with whole-grain toast and a side of avocado</li>\<newline>'',
     ''            <li><strong>10:00 AM - Snack:</strong> A boiled egg or a handful of nuts</li>\<newline>'',
     ''            <li><strong>1:00 PM - Lunch:</strong> Grilled chicken sandwich with avocado and a side of mixed greens</li>\<newline>'',
     ''            <li><strong>4:00 PM - Snack:</strong> A small apple or a handful of almonds</li>\<newline>'',
     ''            <li><strong>7:00 PM - Dinner:</strong> Grilled fish with a side of roasted vegetables</li>\<newline>'',
     ''            <li><strong>9:00 PM - Snack (optional):</strong> A glass of warm skim milk</li>\<newline>'',
     ''          </ul>\<newline>'',
     ''        '']"

definition plan_default :: string where
  "plan_default = ''<p>No specific plan selected.</p>''"

text \<open>The \<open>switch (goal)\<close> with its inner \<open>if (dietPreference === 'vegetarian')\<close>.\<close>

definition dietPlan :: "jsval \<Rightarrow> jsval \<Rightarrow> string" where
  "dietPlan goal dietPreference =
     (if goal = Str ''weight_loss'' then
        (if dietPreference = Str ''vegetarian''
         then plan_weight_loss_vegetarian else plan_weight_loss_other)
      else if goal = Str ''muscle_gain'' then
        (if dietPreference = Str ''vegetarian''
         then plan_muscle_gain_vegetarian else plan_muscle_gain_other)
      else if goal = Str ''maintain_weight'' then
        (if dietPreference = Str ''vegetarian''
         then plan_maintain_weight_vegetarian else plan_maintain_weight_other)
      else plan_default)"

text \<open>
  The insert is inside \<open>try\<close>; the template literal of the email and the call of
  \<open>sendMail\<close> come after it, outside any \<open>try\<close>.
\<close>

definition send_diet_plan :: "env \<Rightarrow> database \<Rightarrow> document \<Rightarrow> result" where
  "send_diet_plan e db body =
     (let name = property body ''name'';
          email = property body ''email'';
          goal = property body ''goal'';
          height = property body ''height'';
          weight = property body ''weight'';
          exerciseLevel = property body ''exerciseLevel'';
          dietPreference = property body ''dietPreference'';
          plan = dietPlan goal dietPreference;
          dietPlanData =
            [(''name'', name), (''email'', email), (''goal'', goal), (''height'', height),
             (''weight'', weight), (''exerciseLevel'', exerciseLevel),
             (''dietPreference'', dietPreference), (''dietPlan'', Str plan)];
          ins = InsertOne ''dietPlans'' dietPlanData
      in if \<not> insert_ok e
         then \<lparr>outcome = respond 500 (success_message False ''Failed to save diet plan''),
               store = db, calls = [ins]\<rparr>
         else
           let db' = insertOne db ''dietPlans'' dietPlanData;
               fields = [name, goal, height, weight, exerciseLevel, dietPreference, Str plan]
           in if \<not> list_all stringifies fields
              then \<lparr>outcome = Unhandled TypeError, store = db', calls = [ins]\<rparr>
              else
                let mailOptions =
                      \<lparr>to = email, subject = ''Your Personalized Diet Plan'', html = fields\<rparr>
                in \<lparr>outcome =
                       (if mail_ok e
                        then respond 200 (success_message True ''Diet plan sent to your email!'')
                        else respond 500 (success_message False ''Failed to send email'')),
                     store = db', calls = [ins, SendMail mailOptions]\<rparr>)"

subsection \<open>POST /book-appointment\<close>

definition book_appointment :: "env \<Rightarrow> database \<Rightarrow> document \<Rightarrow> result" where
  "book_appointment e db body =
     (let name = property body ''name'';
          email = property body ''email'';
          phone = property body ''phone'';
          date = property body ''date'';
          time = property body ''time'';
          appointment =
            [(''name'', name), (''email'', email), (''phone'', phone), (''date'', date),
             (''time'', time)];
          ins = InsertOne ''appointments'' appointment
      in if \<not> insert_ok e
         then \<lparr>outcome = respond 500 (success_message False ''Failed to save appointment''),
               store = db, calls = [ins]\<rparr>
         else
           let db' = insertOne db ''appointments'' appointment;
               fields = [name, date, time, phone]
           in if \<not> list_all stringifies fields
              then \<lparr>outcome = Unhandled TypeError, store = db', calls = [ins]\<rparr>
              else
                let mailOptions =
                      \<lparr>to = email, subject = ''Appointment Confirmation'', html = fields\<rparr>
                in \<lparr>outcome =
                       (if mail_ok e
                        then respond 200 (success_message True ''Appointment booked successfully!'')
                        else respond 500 (success_message False ''Failed to book appointment'')),
                     store = db', calls = [ins, SendMail mailOptions]\<rparr>)"

subsection \<open>POST /get-started and POST /signin\<close>

text \<open>
  \<open>bcrypt.hash(password, saltRounds)\<close> is awaited before the \<open>try\<close>: it rejects with
  "Illegal arguments" unless the password is a string. The insert, the template literal
  with \<open>goals.join(', ')\<close> and the call of \<open>sendMail\<close> are inside the \<open>try\<close>.
\<close>

definition get_started :: "bcrypt \<Rightarrow> env \<Rightarrow> database \<Rightarrow> document \<Rightarrow> result" where
  "get_started bc e db body =
     (let firstName = property body ''firstName'';
          lastName = property body ''lastName'';
          email = property body ''email'';
          phone = property body ''phone'';
          goals = property body ''goals''
      in case property body ''password'' of
           Str password \<Rightarrow>
             let hashedPassword = bcrypt_hash bc password (salt e);
                 userData =
                   [(''firstName'', firstName), (''lastName'', lastName), (''email'', email),
                    (''phone'', phone), (''password'', Str hashedPassword), (''goals'', goals)];
                 ins = InsertOne ''users'' userData
             in if \<not> insert_ok e
                then \<lparr>outcome = respond 500 (success_message False ''Failed to sign up''),
                      store = db, calls = [ins]\<rparr>
                else
                  let db' = insertOne db ''users'' userData
                  in if \<not> (stringifies firstName \<and> stringifies lastName
                            \<and> is_array goals \<and> stringifies goals)
                     then \<lparr>outcome = respond 500 (success_message False ''Failed to sign up''),
                           store = db', calls = [ins]\<rparr>
                     else
                       let mailOptions =
                             \<lparr>to = email, subject = ''Welcome to HealthConnect'',
                              html = [firstName, lastName, goals]\<rparr>
                       in \<lparr>outcome =
                              (if mail_ok e
                               then respond 200 (success_message True ''Thank you for signing up!'')
                               else respond 500 (success_message False ''Failed to send welcome email'')),
                            store = db', calls = [ins, SendMail mailOptions]\<rparr>
         | _ \<Rightarrow> \<lparr>outcome = Unhandled IllegalArguments, store = db, calls = []\<rparr>)"

text \<open>
  The whole handler is inside \<open>try\<close>. \<open>bcrypt.compare\<close> rejects unless both the submitted
  and the stored password are strings; the rejection is caught and answered with 500.
\<close>

definition signin :: "bcrypt \<Rightarrow> env \<Rightarrow> database \<Rightarrow> document \<Rightarrow> result" where
  "signin bc e db body =
     (let email = property body ''email'';
          password = property body ''password'';
          look = FindOne ''users'' email
      in if \<not> find_ok e
         then \<lparr>outcome = respond 500 (success_message False ''Failed to sign in''),
               store = db, calls = [look]\<rparr>
         else
           (case findOne db ''users'' ''email'' email of
              None \<Rightarrow>
                \<lparr>outcome = respond 404 (success_message False ''User not found''),
                 store = db, calls = [look]\<rparr>
            | Some user \<Rightarrow>
                (case (password, property user ''password'') of
                   (Str p, Str h) \<Rightarrow>
                     if bcrypt_compare bc p h
                     then \<lparr>outcome = respond 200
                             (Obj [(''success'', Bool True),
                                   (''message'', Str ''Sign-in successful!''),
                                   (''user'', Obj user)]),
                           store = db, calls = [look]\<rparr>
                     else \<lparr>outcome = respond 401 (success_message False ''Invalid email or password''),
                           store = db, calls = [look]\<rparr>
                 | _ \<Rightarrow>
                     \<lparr>outcome = respond 500 (success_message False ''Failed to sign in''),
                      store = db, calls = [look]\<rparr>)))"

subsection \<open>Reading the list of outside calls\<close>

definition is_completion :: "call \<Rightarrow> bool" where
  "is_completion c = (case c of Completion q \<Rightarrow> True | _ \<Rightarrow> False)"

definition is_send_mail :: "call \<Rightarrow> bool" where
  "is_send_mail c = (case c of SendMail m \<Rightarrow> True | _ \<Rightarrow> False)"

definition is_insert :: "call \<Rightarrow> bool" where
  "is_insert c = (case c of InsertOne coll d \<Rightarrow> True | _ \<Rightarrow> False)"

subsection \<open>Fixtures for running the handlers on concrete requests\<close>

definition empty_db :: database where
  "empty_db = (\<lambda>c. [])"

text \<open>An outside world in which every call completes; the completion API is down.\<close>

definition calm :: env where
  "calm = \<lparr>find_ok = True, insert_ok = True, mail_ok = True, completion = None,
            now = 0, salt = 0\<rparr>"

text \<open>
  A stand-in for bcryptjs on concrete requests. It keeps the library's contract:
  \<open>compare\<close> accepts a hash exactly for the password it was made from.
\<close>

definition model_bcrypt :: bcrypt where
  "model_bcrypt =
     \<lparr>bcrypt_hash = (\<lambda>p s. ''$2a$10$'' @ p),
      bcrypt_compare = (\<lambda>p h. h = ''$2a$10$'' @ p)\<rparr>"

definition signup_body :: "string \<Rightarrow> string \<Rightarrow> document" where
  "signup_body email password =
     [(''firstName'', Str ''Ann''), (''lastName'', Str ''Lee''), (''email'', Str email),
      (''phone'', Str ''555-0100''), (''password'', Str password),
      (''goals'', Arr [Str ''strength''])]"

definition credentials :: "string \<Rightarrow> string \<Rightarrow> document" where
  "credentials email password = [(''email'', Str email), (''password'', Str password)]"

text \<open>The database after Ann has signed up with the password secret123.\<close>

definition ann_db :: database where
  "ann_db =
     store (get_started model_bcrypt calm empty_db (signup_body ''ann@example.com'' ''secret123''))"

definition appointment_body :: document where
  "appointment_body =
     [(''name'', Str ''Ann''), (''email'', Str ''ann@example.com''),
      (''phone'', Str ''555-0100''), (''date'', Str ''2025-03-01''), (''time'', Str ''10:00'')]"

definition diet_plan_body :: document where
  "diet_plan_body =
     [(''name'', Str ''Ann''), (''email'', Str ''ann@example.com''),
      (''goal'', Str ''muscle_gain''), (''height'', Num 170), (''weight'', Num 60),
      (''exerciseLevel'', Str ''moderate''), (''dietPreference'', Str ''vegetarian'')]"

section \<open>Properties\<close>

subsection \<open>Diet plan generator\<close>

lemmas plan_defs =
  plan_weight_loss_vegetarian_def plan_weight_loss_other_def
  plan_muscle_gain_vegetarian_def plan_muscle_gain_other_def
  plan_maintain_weight_vegetarian_def plan_maintain_weight_other_def plan_default_def

lemma six_plans_distinct:
  "distinct (map (\<lambda>(g, p). dietPlan (Str g) (Str p))
     (List.product [''weight_loss'', ''muscle_gain'', ''maintain_weight'']
                   [''vegetarian'', ''other'']))"
  by (simp add: dietPlan_def plan_defs)

lemma six_plans_nonempty:
  "[] \<notin> set (map (\<lambda>(g, p). dietPlan (Str g) (Str p))
     (List.product [''weight_loss'', ''muscle_gain'', ''maintain_weight'']
                   [''vegetarian'', ''other'']))"
  by (simp add: dietPlan_def plan_defs)

lemma dietPlan_not_vegetarian:
  "dietPreference \<noteq> Str ''vegetarian'' \<Longrightarrow>
     dietPlan goal dietPreference = dietPlan goal (Str ''other'')"
  by (simp add: dietPlan_def)

lemma dietPlan_unrecognized:
  "goal \<notin> {Str ''weight_loss'', Str ''muscle_gain'', Str ''maintain_weight''} \<Longrightarrow>
     dietPlan goal dietPreference = ''<p>No specific plan selected.</p>''"
  by (simp add: dietPlan_def plan_default_def)

text \<open>
  C8. The diet plan is a function of goal and dietPreference alone (\<open>dietPlan\<close> takes nothing
  else and is total). The six plans for the goals weight_loss, muscle_gain and
  maintain_weight with dietPreference vegetarian or other are pairwise distinct and none is
  empty; every dietPreference that is not vegetarian gives the plan of "other"; every
  goal outside the three gives the fixed default fragment, whatever the dietPreference.
\<close>

theorem dietPlan_six_distinct_and_default:
  "distinct (map (\<lambda>(g, p). dietPlan (Str g) (Str p))
      (List.product [''weight_loss'', ''muscle_gain'', ''maintain_weight'']
                    [''vegetarian'', ''other'']))
   \<and> [] \<notin> set (map (\<lambda>(g, p). dietPlan (Str g) (Str p))
      (List.product [''weight_loss'', ''muscle_gain'', ''maintain_weight'']
                    [''vegetarian'', ''other'']))
   \<and> (dietPreference \<noteq> Str ''vegetarian'' \<longrightarrow>
        dietPlan goal dietPreference = dietPlan goal (Str ''other''))
   \<and> (goal \<notin> {Str ''weight_loss'', Str ''muscle_gain'', Str ''maintain_weight''} \<longrightarrow>
        dietPlan goal dietPreference = ''<p>No specific plan selected.</p>'')"
  using six_plans_distinct six_plans_nonempty dietPlan_not_vegetarian dietPlan_unrecognized
  by blast

theorem dietPlan_six_distinct_and_default_witness:
  "Null \<noteq> Str ''vegetarian''
   \<and> dietPlan (Str ''muscle_gain'') Null = dietPlan (Str ''muscle_gain'') (Str ''other'')
   \<and> Str ''keto'' \<notin> {Str ''weight_loss'', Str ''muscle_gain'', Str ''maintain_weight''}
   \<and> dietPlan (Str ''keto'') (Str ''vegetarian'') = ''<p>No specific plan selected.</p>''"
  using dietPlan_six_distinct_and_default [of Null "Str ''muscle_gain''"]
        dietPlan_six_distinct_and_default [of "Str ''vegetarian''" "Str ''keto''"]
  by simp

subsection \<open>Conversational responder\<close>

lemma find_Some_holds: "find P xs = Some x \<Longrightarrow> x \<in> set xs \<and> P x"
  by (induction xs) (auto split: if_splits)

lemma includes_str_sublist: "includes_str s k = sublist k s"
  by (induction s) (auto simp: sublist_Cons_right)

lemmas response_defs = response_hello_def response_hi_def response_workout_splits_def
  response_diet_plans_def response_fitness_advice_def response_default_def

lemma keyword_table_eq:
  "keyword_table =
     [(''hello'', response_hello), (''hi'', response_hi),
      (''workout splits'', response_workout_splits),
      (''diet plans'', response_diet_plans),
      (''fitness advice'', response_fitness_advice)]"
  by (simp add: keyword_table_def responses_def)

lemma keyword_responses_not_default:
  "\<forall>(key, r) \<in> set keyword_table. r \<noteq> response_default"
  by (simp add: keyword_table_eq response_defs)

lemma match_response_find:
  "match_response responses m response_default =
     (case find (\<lambda>(key, r). includes_str m key) keyword_table of
        Some (key, r) \<Rightarrow> r | None \<Rightarrow> response_default)"
  by (simp add: keyword_table_eq responses_def)

lemma match_default_iff:
  "match_response responses m response_default = response_default
     \<longleftrightarrow> \<not> (\<exists>key \<in> set (map fst keyword_table). sublist key m)"
proof (cases "find (\<lambda>(key, r). includes_str m key) keyword_table")
  case None
  then have "match_response responses m response_default = response_default"
    by (simp add: match_response_find)
  moreover from None have "\<not> (\<exists>key \<in> set (map fst keyword_table). sublist key m)"
    by (auto simp: find_None_iff includes_str_sublist)
  ultimately show ?thesis by simp
next
  case (Some kr)
  obtain key r where kr: "kr = (key, r)" by (cases kr)
  from Some kr have "(key, r) \<in> set keyword_table" "includes_str m key"
    by (auto dest: find_Some_holds)
  with keyword_responses_not_default Some kr show ?thesis
    by (force simp add: match_response_find includes_str_sublist)
qed

lemma lower_char_not_upper: "lower_char c \<notin> set ''ABCDEFGHIJKLMNOPQRSTUVWXYZ''"
  by (simp add: lower_char_def)

lemma toLowerCase_no_upper: "set (toLowerCase s) \<inter> set ''ABCDEFGHIJKLMNOPQRSTUVWXYZ'' = {}"
  using lower_char_not_upper by (auto simp: toLowerCase_def simp del: set_simps)


lemma chat_string:
  assumes "property body ''message'' = Str message"
  shows "chat e db body =
     (let userMessage = toLowerCase message;
          matched = match_response responses userMessage response_default;
          ask = (matched = response_default);
          botResponse =
            (if ask
             then (case completion e of Some v \<Rightarrow> v | None \<Rightarrow> Str apology)
             else Str matched);
          conversation =
            [(''userMessage'', Str userMessage),
             (''botResponse'', botResponse),
             (''timestamp'', Date (now e))]
      in \<lparr>outcome = respond 200 (Obj [(''message'', botResponse)]),
          store = (if insert_ok e then insertOne db ''chatHistory'' conversation else db),
          calls = (if ask then [Completion userMessage] else [])
                    @ [InsertOne ''chatHistory'' conversation]\<rparr>)"
  using assms by (simp add: chat_def)

text \<open>
  C2. Keyword matching is first-match over the ordered table hello, hi, workout splits,
  diet plans, fitness advice: when the message is a string, the reply is the canned
  response of the first keyword of the table that is a substring of the lowercased message.
  For "hi there, tell me about diet plans" that is the response for "hi".
\<close>

theorem chat_first_keyword_wins:
  assumes "property body ''message'' = Str message"
      and "find (\<lambda>(key, r). sublist key (toLowerCase message)) keyword_table = Some (key, r)"
  shows "map fst keyword_table =
           [''hello'', ''hi'', ''workout splits'', ''diet plans'', ''fitness advice'']
         \<and> outcome (chat e db body) = respond 200 (Obj [(''message'', Str r)])"
proof -
  let ?m = "toLowerCase message"
  from assms(2) have f: "find (\<lambda>(key, r). includes_str ?m key) keyword_table = Some (key, r)"
    by (simp add: includes_str_sublist)
  then have m: "match_response responses ?m response_default = r"
    by (simp add: match_response_find)
  from f have "(key, r) \<in> set keyword_table" by (auto dest: find_Some_holds)
  with keyword_responses_not_default have "r \<noteq> response_default" by auto
  with m show ?thesis
    by (simp add: chat_string [OF assms(1)] keyword_table_eq Let_def)
qed

theorem chat_first_keyword_wins_witness:
  "property [(''message'', Str ''hi there, tell me about diet plans'')] ''message''
     = Str ''hi there, tell me about diet plans''
   \<and> find (\<lambda>(key, r). sublist key (toLowerCase ''hi there, tell me about diet plans''))
        keyword_table = Some (''hi'', response_hi)
   \<and> outcome (chat calm empty_db [(''message'', Str ''hi there, tell me about diet plans'')])
       = respond 200 (Obj [(''message'', Str ''Hi there! How can I help you?'')])
   \<and> response_hi \<noteq> response_diet_plans"
proof -
  have p: "property [(''message'', Str ''hi there, tell me about diet plans'')] ''message''
     = Str ''hi there, tell me about diet plans''"
    by (simp add: property_def)
  have l: "toLowerCase ''hi there, tell me about diet plans'' = ''hi there, tell me about diet plans''"
    by (simp add: toLowerCase_def lower_char_def)
  have f: "find (\<lambda>(key, r). sublist key (toLowerCase ''hi there, tell me about diet plans''))
        keyword_table = Some (''hi'', response_hi)"
    unfolding l by (simp add: keyword_table_eq includes_str_sublist [symmetric])
  have d: "response_hi \<noteq> response_diet_plans"
    by (simp add: response_defs)
  from chat_first_keyword_wins [OF p f, of calm empty_db] p f d show ?thesis
    by (simp add: response_hi_def)
qed

lemma chat_calls:
  assumes "property body ''message'' = Str message"
  shows "calls (chat e db body) =
     (if \<exists>key \<in> set (map fst keyword_table). sublist key (toLowerCase message)
      then [] else [Completion (toLowerCase message)])
     @ [InsertOne ''chatHistory''
          [(''userMessage'', Str (toLowerCase message)),
           (''botResponse'',
              (if \<exists>key \<in> set (map fst keyword_table). sublist key (toLowerCase message)
               then Str (match_response responses (toLowerCase message) response_default)
               else (case completion e of Some v \<Rightarrow> v | None \<Rightarrow> Str apology))),
           (''timestamp'', Date (now e))]]"
  using match_default_iff [of "toLowerCase message"]
  by (simp add: chat_string [OF assms] Let_def)

lemma chat_store:
  assumes "property body ''message'' = Str message"
  shows "store (chat e db body) =
     (if insert_ok e
      then db(''chatHistory'' := db ''chatHistory'' @
          [[(''userMessage'', Str (toLowerCase message)),
           (''botResponse'',
              (if \<exists>key \<in> set (map fst keyword_table). sublist key (toLowerCase message)
               then Str (match_response responses (toLowerCase message) response_default)
               else (case completion e of Some v \<Rightarrow> v | None \<Rightarrow> Str apology))),
           (''timestamp'', Date (now e))]])
      else db)"
  using match_default_iff [of "toLowerCase message"]
  by (simp add: chat_string [OF assms] Let_def insertOne_def)

lemma chat_outcome:
  assumes "property body ''message'' = Str message"
  shows "outcome (chat e db body) = respond 200 (Obj [(''message'',
     (if \<exists>key \<in> set (map fst keyword_table). sublist key (toLowerCase message)
      then Str (match_response responses (toLowerCase message) response_default)
      else (case completion e of Some v \<Rightarrow> v | None \<Rightarrow> Str apology)))])"
  using match_default_iff [of "toLowerCase message"]
  by (simp add: chat_string [OF assms] Let_def)

text \<open>
  C3. For a string message, POST /chat calls the completion API exactly when none of the
  five keywords is a substring of the lowercased message, and then with the lowercased
  message. When the call is made and fails, the reply is the fixed apology string with
  status 200. For the message "hello" the API is not called and the fixed hello string
  is the reply.
\<close>

theorem chat_completion_iff_no_keyword:
  assumes "property body ''message'' = Str message"
  shows "(list_ex is_completion (calls (chat e db body))
            \<longleftrightarrow> \<not> (\<exists>key \<in> set (map fst keyword_table). sublist key (toLowerCase message)))
       \<and> (\<forall>c \<in> set (calls (chat e db body)).
             is_completion c \<longrightarrow> c = Completion (toLowerCase message))
       \<and> (list_ex is_completion (calls (chat e db body)) \<and> completion e = None \<longrightarrow>
             outcome (chat e db body) = respond 200 (Obj [(''message'', Str
               ''Sorry, I couldn't fetch the information at the moment. Please try again later.'')]))
       \<and> (message = ''hello'' \<longrightarrow>
             \<not> list_ex is_completion (calls (chat e db body))
             \<and> outcome (chat e db body) = respond 200 (Obj [(''message'', Str
                  ''Hello! Welcome to HealthConnect. How can I assist you today?'')]))"
proof -
  let ?kw = "\<exists>key \<in> set (map fst keyword_table). sublist key (toLowerCase message)"
  have a: "list_ex is_completion (calls (chat e db body)) \<longleftrightarrow> \<not> ?kw"
    by (simp add: chat_calls [OF assms] is_completion_def)
  have b: "\<forall>c \<in> set (calls (chat e db body)).
             is_completion c \<longrightarrow> c = Completion (toLowerCase message)"
    by (simp add: chat_calls [OF assms] is_completion_def)
  have c: "list_ex is_completion (calls (chat e db body)) \<and> completion e = None \<longrightarrow>
             outcome (chat e db body) = respond 200 (Obj [(''message'', Str
               ''Sorry, I couldn't fetch the information at the moment. Please try again later.'')])"
    unfolding a by (simp add: chat_outcome [OF assms] apology_def)
  have d: "message = ''hello'' \<longrightarrow>
             \<not> list_ex is_completion (calls (chat e db body))
             \<and> outcome (chat e db body) = respond 200 (Obj [(''message'', Str
                  ''Hello! Welcome to HealthConnect. How can I assist you today?'')])"
  proof
    assume h: "message = ''hello''"
    have l: "toLowerCase ''hello'' = ''hello''"
      by (simp add: toLowerCase_def lower_char_def)
    have k: "\<exists>key \<in> set (map fst keyword_table). sublist key (toLowerCase message)"
      unfolding h l by (simp add: keyword_table_eq)
    have m: "match_response responses ''hello'' response_default = response_hello"
      by (simp add: responses_def)
    from k show "\<not> list_ex is_completion (calls (chat e db body))
             \<and> outcome (chat e db body) = respond 200 (Obj [(''message'', Str
                  ''Hello! Welcome to HealthConnect. How can I assist you today?'')])"
      unfolding a by (simp add: chat_outcome [OF assms] h l m response_hello_def)
  qed
  from a b c d show ?thesis by blast
qed


theorem chat_completion_iff_no_keyword_witness:
  "property [(''message'', Str ''tell me about protein timing'')] ''message''
     = Str ''tell me about protein timing''
   \<and> list_ex is_completion
        (calls (chat calm empty_db [(''message'', Str ''tell me about protein timing'')]))
   \<and> completion calm = None
   \<and> outcome (chat calm empty_db [(''message'', Str ''tell me about protein timing'')])
       = respond 200 (Obj [(''message'', Str
           ''Sorry, I couldn't fetch the information at the moment. Please try again later.'')])
   \<and> property [(''message'', Str ''hello'')] ''message'' = Str ''hello''
   \<and> \<not> list_ex is_completion (calls (chat calm empty_db [(''message'', Str ''hello'')]))
   \<and> outcome (chat calm empty_db [(''message'', Str ''hello'')])
       = respond 200 (Obj [(''message'', Str
           ''Hello! Welcome to HealthConnect. How can I assist you today?'')])"
proof -
  have p: "property [(''message'', Str ''tell me about protein timing'')] ''message''
     = Str ''tell me about protein timing''"
    by (simp add: property_def)
  have l: "toLowerCase ''tell me about protein timing'' = ''tell me about protein timing''"
    by (simp add: toLowerCase_def lower_char_def)
  have n: "\<not> (\<exists>key \<in> set (map fst keyword_table).
             sublist key (toLowerCase ''tell me about protein timing''))"
    unfolding l by (simp add: keyword_table_eq includes_str_sublist [symmetric])
  have c: "completion calm = None"
    by (simp add: calm_def)
  have h: "property [(''message'', Str ''hello'')] ''message'' = Str ''hello''"
    by (simp add: property_def)
  from chat_completion_iff_no_keyword [OF p, of calm empty_db]
       chat_completion_iff_no_keyword [OF h, of calm empty_db] p n c h
  show ?thesis by blast
qed

text \<open>
  C9. For a string message, POST /chat makes exactly one insert, of the document
  (userMessage, botResponse, timestamp) into chatHistory, as its last outside call, after
  the reply is computed. When the insert completes the collection gains that document;
  when it fails the database is unchanged. Either way the response is status 200 with the
  same body: the outcome does not depend on whether the insert completes.
\<close>

theorem chat_logs_every_exchange:
  assumes "property body ''message'' = Str message"
  shows "\<exists>botResponse conversation.
       conversation =
         [(''userMessage'', Str (toLowerCase message)), (''botResponse'', botResponse),
          (''timestamp'', Date (now e))]
     \<and> outcome (chat e db body) = respond 200 (Obj [(''message'', botResponse)])
     \<and> filter is_insert (calls (chat e db body)) = [InsertOne ''chatHistory'' conversation]
     \<and> last (calls (chat e db body)) = InsertOne ''chatHistory'' conversation
     \<and> (insert_ok e \<longrightarrow>
          store (chat e db body) = db(''chatHistory'' := db ''chatHistory'' @ [conversation]))
     \<and> (\<not> insert_ok e \<longrightarrow> store (chat e db body) = db)
     \<and> outcome (chat (e\<lparr>insert_ok := False\<rparr>) db body)
         = outcome (chat (e\<lparr>insert_ok := True\<rparr>) db body)"
  by (simp add: chat_outcome [OF assms] chat_calls [OF assms] chat_store [OF assms]
        is_insert_def)

theorem chat_logs_every_exchange_witness:
  "property [(''message'', Str ''Hello'')] ''message'' = Str ''Hello''
   \<and> outcome (chat calm empty_db [(''message'', Str ''Hello'')])
       = respond 200 (Obj [(''message'',
           Str ''Hello! Welcome to HealthConnect. How can I assist you today?'')])
   \<and> last (calls (chat calm empty_db [(''message'', Str ''Hello'')]))
       = InsertOne ''chatHistory''
           [(''userMessage'', Str ''hello''),
            (''botResponse'', Str ''Hello! Welcome to HealthConnect. How can I assist you today?''),
            (''timestamp'', Date 0)]
   \<and> store (chat calm empty_db [(''message'', Str ''Hello'')]) ''chatHistory''
       = [[(''userMessage'', Str ''hello''),
           (''botResponse'', Str ''Hello! Welcome to HealthConnect. How can I assist you today?''),
           (''timestamp'', Date 0)]]
   \<and> store (chat (calm\<lparr>insert_ok := False\<rparr>) empty_db [(''message'', Str ''Hello'')]) = empty_db
   \<and> outcome (chat (calm\<lparr>insert_ok := False\<rparr>) empty_db [(''message'', Str ''Hello'')])
       = respond 200 (Obj [(''message'',
           Str ''Hello! Welcome to HealthConnect. How can I assist you today?'')])"
proof -
  let ?body = "[(''message'', Str ''Hello'')]"
  have p: "property ?body ''message'' = Str ''Hello''"
    by (simp add: property_def)
  have l: "toLowerCase ''Hello'' = ''hello''"
    by (simp add: toLowerCase_def lower_char_def)
  have o: "outcome (chat calm empty_db ?body)
       = respond 200 (Obj [(''message'',
           Str ''Hello! Welcome to HealthConnect. How can I assist you today?'')])"
    by (simp add: chat_def property_def l responses_def response_defs calm_def Let_def)
  have t: "calm\<lparr>insert_ok := True\<rparr> = calm" "insert_ok calm" "now calm = 0"
    by (simp_all add: calm_def)
  from chat_logs_every_exchange [OF p, of calm empty_db] obtain b c where
    c: "c = [(''userMessage'', Str (toLowerCase ''Hello'')), (''botResponse'', b),
             (''timestamp'', Date (now calm))]"
    and b: "outcome (chat calm empty_db ?body) = respond 200 (Obj [(''message'', b)])"
    and la: "last (calls (chat calm empty_db ?body)) = InsertOne ''chatHistory'' c"
    and st: "insert_ok calm \<longrightarrow> store (chat calm empty_db ?body)
               = empty_db(''chatHistory'' := empty_db ''chatHistory'' @ [c])"
    and eq: "outcome (chat (calm\<lparr>insert_ok := False\<rparr>) empty_db ?body)
               = outcome (chat (calm\<lparr>insert_ok := True\<rparr>) empty_db ?body)"
    by blast
  from o b have b': "b = Str ''Hello! Welcome to HealthConnect. How can I assist you today?''"
    by (simp add: respond_def)
  from chat_logs_every_exchange [OF p, of "calm\<lparr>insert_ok := False\<rparr>" empty_db]
  have f: "store (chat (calm\<lparr>insert_ok := False\<rparr>) empty_db ?body) = empty_db"
    by auto
  from p o la st eq f show ?thesis
    unfolding c b' l by (simp add: empty_db_def t)
qed

text \<open>
  C10. For a string message, the document handed to the chatHistory insert has the fields
  userMessage, botResponse, timestamp; its userMessage is the lowercased message, which
  holds no letter A to Z; its botResponse is the value sent as \<open>message\<close> in the response
  body; and it is the document the collection gains when the insert completes.
\<close>

theorem chat_history_document:
  assumes "property body ''message'' = Str message"
      and "InsertOne coll d \<in> set (calls (chat e db body))"
  shows "coll = ''chatHistory''
       \<and> map fst d = [''userMessage'', ''botResponse'', ''timestamp'']
       \<and> property d ''userMessage'' = Str (toLowerCase message)
       \<and> set (toLowerCase message) \<inter> set ''ABCDEFGHIJKLMNOPQRSTUVWXYZ'' = {}
       \<and> outcome (chat e db body) = respond 200 (Obj [(''message'', property d ''botResponse'')])
       \<and> (insert_ok e \<longrightarrow> store (chat e db body) ''chatHistory'' = db ''chatHistory'' @ [d])"
proof -
  from assms(2) have d: "coll = ''chatHistory''"
    "d = [(''userMessage'', Str (toLowerCase message)),
           (''botResponse'',
              (if \<exists>key \<in> set (map fst keyword_table). sublist key (toLowerCase message)
               then Str (match_response responses (toLowerCase message) response_default)
               else (case completion e of Some v \<Rightarrow> v | None \<Rightarrow> Str apology))),
           (''timestamp'', Date (now e))]"
    by (auto simp: chat_calls [OF assms(1)] split: if_splits)
  show ?thesis
    unfolding d using toLowerCase_no_upper [of message]
    by (simp add: chat_outcome [OF assms(1)] chat_store [OF assms(1)] property_def
          del: set_simps)
qed

theorem chat_history_document_witness:
  "property [(''message'', Str ''Hello THERE'')] ''message'' = Str ''Hello THERE''
   \<and> InsertOne ''chatHistory''
        [(''userMessage'', Str ''hello there''),
         (''botResponse'', Str ''Hello! Welcome to HealthConnect. How can I assist you today?''),
         (''timestamp'', Date 0)]
       \<in> set (calls (chat calm empty_db [(''message'', Str ''Hello THERE'')]))
   \<and> toLowerCase ''Hello THERE'' = ''hello there''
   \<and> outcome (chat calm empty_db [(''message'', Str ''Hello THERE'')])
       = respond 200 (Obj [(''message'',
           Str ''Hello! Welcome to HealthConnect. How can I assist you today?'')])
   \<and> store (chat calm empty_db [(''message'', Str ''Hello THERE'')]) ''chatHistory''
       = [[(''userMessage'', Str ''hello there''),
           (''botResponse'', Str ''Hello! Welcome to HealthConnect. How can I assist you today?''),
           (''timestamp'', Date 0)]]"
proof -
  have p: "property [(''message'', Str ''Hello THERE'')] ''message'' = Str ''Hello THERE''"
    by (simp add: property_def)
  have l: "toLowerCase ''Hello THERE'' = ''hello there''"
    by (simp add: toLowerCase_def lower_char_def)
  have c: "InsertOne ''chatHistory''
        [(''userMessage'', Str ''hello there''),
         (''botResponse'', Str ''Hello! Welcome to HealthConnect. How can I assist you today?''),
         (''timestamp'', Date 0)]
       \<in> set (calls (chat calm empty_db [(''message'', Str ''Hello THERE'')]))"
    by (simp add: chat_def property_def l responses_def response_defs calm_def Let_def)
  from chat_history_document [OF p c] p c l show ?thesis
    by (simp add: property_def calm_def empty_db_def)
qed

subsection \<open>Persistence before notification\<close>

lemma send_diet_plan_insert_fails:
  "\<not> insert_ok e \<longrightarrow>
      outcome (send_diet_plan e db body)
        = respond 500 (success_message False ''Failed to save diet plan'')
      \<and> \<not> list_ex is_send_mail (calls (send_diet_plan e db body))
      \<and> store (send_diet_plan e db body) = db"
  by (simp add: send_diet_plan_def Let_def is_send_mail_def)

lemma send_diet_plan_insert_kept:
  "insert_ok e \<longrightarrow>
      (\<exists>d. store (send_diet_plan e db body) = db(''dietPlans'' := db ''dietPlans'' @ [d]))"
  by (auto simp: send_diet_plan_def Let_def insertOne_def)

lemma send_diet_plan_mail_fails:
  "insert_ok e \<and> list_ex is_send_mail (calls (send_diet_plan e db body)) \<and> \<not> mail_ok e \<longrightarrow>
      outcome (send_diet_plan e db body)
        = respond 500 (success_message False ''Failed to send email'')"
  by (simp add: send_diet_plan_def Let_def is_send_mail_def)

lemma send_diet_plan_both_ok:
  "insert_ok e \<and> list_ex is_send_mail (calls (send_diet_plan e db body)) \<and> mail_ok e \<longrightarrow>
      outcome (send_diet_plan e db body)
        = respond 200 (success_message True ''Diet plan sent to your email!'')"
  by (simp add: send_diet_plan_def Let_def is_send_mail_def)

lemma send_diet_plan_200:
  "\<forall>rsp. outcome (send_diet_plan e db body) = Responded rsp \<and> status rsp = 200 \<longrightarrow>
      insert_ok e \<and> mail_ok e \<and> json rsp = success_message True ''Diet plan sent to your email!''"
  by (auto simp: send_diet_plan_def Let_def respond_def split: if_splits)

lemma book_appointment_insert_fails:
  "\<not> insert_ok e \<longrightarrow>
      outcome (book_appointment e db body)
        = respond 500 (success_message False ''Failed to save appointment'')
      \<and> \<not> list_ex is_send_mail (calls (book_appointment e db body))
      \<and> store (book_appointment e db body) = db"
  by (simp add: book_appointment_def Let_def is_send_mail_def)

lemma book_appointment_insert_kept:
  "insert_ok e \<longrightarrow>
      (\<exists>d. store (book_appointment e db body) = db(''appointments'' := db ''appointments'' @ [d]))"
  by (auto simp: book_appointment_def Let_def insertOne_def)

lemma book_appointment_mail_fails:
  "insert_ok e \<and> list_ex is_send_mail (calls (book_appointment e db body)) \<and> \<not> mail_ok e \<longrightarrow>
      outcome (book_appointment e db body)
        = respond 500 (success_message False ''Failed to book appointment'')"
  by (simp add: book_appointment_def Let_def is_send_mail_def)

lemma book_appointment_both_ok:
  "insert_ok e \<and> list_ex is_send_mail (calls (book_appointment e db body)) \<and> mail_ok e \<longrightarrow>
      outcome (book_appointment e db body)
        = respond 200 (success_message True ''Appointment booked successfully!'')"
  by (simp add: book_appointment_def Let_def is_send_mail_def)

lemma book_appointment_200:
  "\<forall>rsp. outcome (book_appointment e db body) = Responded rsp \<and> status rsp = 200 \<longrightarrow>
      insert_ok e \<and> mail_ok e \<and> json rsp = success_message True ''Appointment booked successfully!''"
  by (auto simp: book_appointment_def Let_def respond_def split: if_splits)

text \<open>
  C4. POST /send-diet-plan and POST /book-appointment persist first and never roll back.
  When the insert fails the answer is 500, no email is attempted and the database is
  unchanged. When the insert completes, the collection has gained exactly one document,
  whatever happens afterwards; if the email is then sent and fails the answer is 500, if
  it is sent and succeeds the answer is 200 with success true. An answer with status 200
  implies that both the insert and the email send succeeded.
\<close>

theorem persistence_first_never_rolled_back:
  "(\<not> insert_ok e \<longrightarrow>
      outcome (send_diet_plan e db body)
        = respond 500 (success_message False ''Failed to save diet plan'')
      \<and> \<not> list_ex is_send_mail (calls (send_diet_plan e db body))
      \<and> store (send_diet_plan e db body) = db)
   \<and> (insert_ok e \<longrightarrow>
      (\<exists>d. store (send_diet_plan e db body) = db(''dietPlans'' := db ''dietPlans'' @ [d])))
   \<and> (insert_ok e \<and> list_ex is_send_mail (calls (send_diet_plan e db body)) \<and> \<not> mail_ok e \<longrightarrow>
      outcome (send_diet_plan e db body)
        = respond 500 (success_message False ''Failed to send email''))
   \<and> (insert_ok e \<and> list_ex is_send_mail (calls (send_diet_plan e db body)) \<and> mail_ok e \<longrightarrow>
      outcome (send_diet_plan e db body)
        = respond 200 (success_message True ''Diet plan sent to your email!''))
   \<and> (\<forall>rsp. outcome (send_diet_plan e db body) = Responded rsp \<and> status rsp = 200 \<longrightarrow>
      insert_ok e \<and> mail_ok e \<and> json rsp = success_message True ''Diet plan sent to your email!'')
   \<and> (\<not> insert_ok e \<longrightarrow>
      outcome (book_appointment e db body)
        = respond 500 (success_message False ''Failed to save appointment'')
      \<and> \<not> list_ex is_send_mail (calls (book_appointment e db body))
      \<and> store (book_appointment e db body) = db)
   \<and> (insert_ok e \<longrightarrow>
      (\<exists>d. store (book_appointment e db body) = db(''appointments'' := db ''appointments'' @ [d])))
   \<and> (insert_ok e \<and> list_ex is_send_mail (calls (book_appointment e db body)) \<and> \<not> mail_ok e \<longrightarrow>
      outcome (book_appointment e db body)
        = respond 500 (success_message False ''Failed to book appointment''))
   \<and> (insert_ok e \<and> list_ex is_send_mail (calls (book_appointment e db body)) \<and> mail_ok e \<longrightarrow>
      outcome (book_appointment e db body)
        = respond 200 (success_message True ''Appointment booked successfully!''))
   \<and> (\<forall>rsp. outcome (book_appointment e db body) = Responded rsp \<and> status rsp = 200 \<longrightarrow>
      insert_ok e \<and> mail_ok e \<and> json rsp = success_message True ''Appointment booked successfully!'')"
  by (intro conjI;
      fact send_diet_plan_insert_fails send_diet_plan_insert_kept send_diet_plan_mail_fails
        send_diet_plan_both_ok send_diet_plan_200 book_appointment_insert_fails
        book_appointment_insert_kept book_appointment_mail_fails book_appointment_both_ok
        book_appointment_200)


theorem persistence_first_never_rolled_back_witness:
  "\<not> insert_ok (calm\<lparr>insert_ok := False\<rparr>)
   \<and> outcome (send_diet_plan (calm\<lparr>insert_ok := False\<rparr>) empty_db diet_plan_body)
       = respond 500 (success_message False ''Failed to save diet plan'')
   \<and> \<not> list_ex is_send_mail (calls (send_diet_plan (calm\<lparr>insert_ok := False\<rparr>) empty_db diet_plan_body))
   \<and> store (send_diet_plan (calm\<lparr>insert_ok := False\<rparr>) empty_db diet_plan_body) = empty_db
   \<and> outcome (book_appointment (calm\<lparr>insert_ok := False\<rparr>) empty_db appointment_body)
       = respond 500 (success_message False ''Failed to save appointment'')
   \<and> \<not> list_ex is_send_mail (calls (book_appointment (calm\<lparr>insert_ok := False\<rparr>) empty_db appointment_body))
   \<and> store (book_appointment (calm\<lparr>insert_ok := False\<rparr>) empty_db appointment_body) = empty_db
   \<and> insert_ok (calm\<lparr>mail_ok := False\<rparr>) \<and> \<not> mail_ok (calm\<lparr>mail_ok := False\<rparr>)
   \<and> list_ex is_send_mail (calls (send_diet_plan (calm\<lparr>mail_ok := False\<rparr>) empty_db diet_plan_body))
   \<and> outcome (send_diet_plan (calm\<lparr>mail_ok := False\<rparr>) empty_db diet_plan_body)
       = respond 500 (success_message False ''Failed to send email'')
   \<and> length (store (send_diet_plan (calm\<lparr>mail_ok := False\<rparr>) empty_db diet_plan_body) ''dietPlans'') = 1
   \<and> list_ex is_send_mail (calls (book_appointment (calm\<lparr>mail_ok := False\<rparr>) empty_db appointment_body))
   \<and> outcome (book_appointment (calm\<lparr>mail_ok := False\<rparr>) empty_db appointment_body)
       = respond 500 (success_message False ''Failed to book appointment'')
   \<and> store (book_appointment (calm\<lparr>mail_ok := False\<rparr>) empty_db appointment_body) ''appointments''
       = [appointment_body]
   \<and> insert_ok calm \<and> mail_ok calm
   \<and> list_ex is_send_mail (calls (send_diet_plan calm empty_db diet_plan_body))
   \<and> outcome (send_diet_plan calm empty_db diet_plan_body)
       = Responded \<lparr>status = 200, json = success_message True ''Diet plan sent to your email!''\<rparr>
   \<and> list_ex is_send_mail (calls (book_appointment calm empty_db appointment_body))
   \<and> outcome (book_appointment calm empty_db appointment_body)
       = Responded \<lparr>status = 200, json = success_message True ''Appointment booked successfully!''\<rparr>"
proof -
  let ?f = "calm\<lparr>insert_ok := False\<rparr>" and ?m = "calm\<lparr>mail_ok := False\<rparr>"
  have e: "\<not> insert_ok ?f" "insert_ok ?m" "\<not> mail_ok ?m" "insert_ok calm" "mail_ok calm"
    by (simp_all add: calm_def)
  have s: "list_ex is_send_mail (calls (send_diet_plan ?m empty_db diet_plan_body))"
    "list_ex is_send_mail (calls (book_appointment ?m empty_db appointment_body))"
    "list_ex is_send_mail (calls (send_diet_plan calm empty_db diet_plan_body))"
    "list_ex is_send_mail (calls (book_appointment calm empty_db appointment_body))"
    by (simp_all add: send_diet_plan_def book_appointment_def diet_plan_body_def
          appointment_body_def property_def calm_def Let_def is_send_mail_def)
  have d: "length (store (send_diet_plan ?m empty_db diet_plan_body) ''dietPlans'') = 1"
    "store (book_appointment ?m empty_db appointment_body) ''appointments'' = [appointment_body]"
    by (simp_all add: send_diet_plan_def book_appointment_def diet_plan_body_def
          appointment_body_def property_def calm_def Let_def insertOne_def empty_db_def)
  note f = persistence_first_never_rolled_back [of ?f empty_db diet_plan_body]
    persistence_first_never_rolled_back [of ?f empty_db appointment_body]
  note m = persistence_first_never_rolled_back [of ?m empty_db diet_plan_body]
    persistence_first_never_rolled_back [of ?m empty_db appointment_body]
  note c = persistence_first_never_rolled_back [of calm empty_db diet_plan_body]
    persistence_first_never_rolled_back [of calm empty_db appointment_body]
  from f have 1: "outcome (send_diet_plan ?f empty_db diet_plan_body)
       = respond 500 (success_message False ''Failed to save diet plan'')"
     "\<not> list_ex is_send_mail (calls (send_diet_plan ?f empty_db diet_plan_body))"
     "store (send_diet_plan ?f empty_db diet_plan_body) = empty_db"
     "outcome (book_appointment ?f empty_db appointment_body)
       = respond 500 (success_message False ''Failed to save appointment'')"
     "\<not> list_ex is_send_mail (calls (book_appointment ?f empty_db appointment_body))"
     "store (book_appointment ?f empty_db appointment_body) = empty_db"
    by (simp_all add: e)
  from m have 2: "outcome (send_diet_plan ?m empty_db diet_plan_body)
       = respond 500 (success_message False ''Failed to send email'')"
     "outcome (book_appointment ?m empty_db appointment_body)
       = respond 500 (success_message False ''Failed to book appointment'')"
    by (simp_all add: e s)
  from c have 3: "outcome (send_diet_plan calm empty_db diet_plan_body)
       = respond 200 (success_message True ''Diet plan sent to your email!'')"
     "outcome (book_appointment calm empty_db appointment_body)
       = respond 200 (success_message True ''Appointment booked successfully!'')"
    by (simp_all add: e s)
  show ?thesis
    by (simp add: e s d 1 2 3 respond_def)
qed

subsection \<open>Newsletter subscription\<close>

lemma find_None_not_in_map:
  "find (\<lambda>d. f d = v) xs = None \<longleftrightarrow> v \<notin> set (map f xs)"
  by (auto simp: find_None_iff)

lemma subscribe_new_email:
  "property body ''email'' = Str a \<Longrightarrow> find_ok e \<Longrightarrow> insert_ok e \<Longrightarrow>
   findOne db ''subscriptions'' ''email'' (Str a) = None \<Longrightarrow>
     subscribe e db body =
       \<lparr>outcome = respond 201 (success_message True ''Thank you for subscribing!''),
        store = db(''subscriptions'' := db ''subscriptions''
                     @ [[(''email'', Str a), (''createdAt'', Date (now e))]]),
        calls = [FindOne ''subscriptions'' (Str a),
                 InsertOne ''subscriptions'' [(''email'', Str a), (''createdAt'', Date (now e))]]\<rparr>"
  by (simp add: subscribe_def Let_def insertOne_def)

lemma subscribe_known_email:
  "property body ''email'' = Str a \<Longrightarrow> find_ok e \<Longrightarrow>
   findOne db ''subscriptions'' ''email'' (Str a) = Some d \<Longrightarrow>
     subscribe e db body =
       \<lparr>outcome = respond 400 (success_message False ''Email already subscribed.''),
        store = db, calls = [FindOne ''subscriptions'' (Str a)]\<rparr>"
  by (simp add: subscribe_def Let_def)

lemma find_append_first:
  "find P (xs @ ys) = (case find P xs of None \<Rightarrow> find P ys | Some x \<Rightarrow> Some x)"
  by (induction xs) auto

lemma property_head: "property ((k, v) # rest) k = v"
  by (simp add: property_def)

lemma findOne_after_insert:
  "findOne db c f v = None \<Longrightarrow> property d f = v \<Longrightarrow>
     findOne (db(c := db c @ [d])) c f v = Some d"
  by (simp add: findOne_def find_append_first)

lemma subscribe_keeps_distinct:
  assumes "distinct (map (\<lambda>d. property d ''email'') (db ''subscriptions''))"
  shows "distinct (map (\<lambda>d. property d ''email'') (store (subscribe e db body) ''subscriptions''))"
  using assms
  by (auto simp: subscribe_def Let_def insertOne_def findOne_def find_None_iff property_head
        split: option.splits)

text \<open>
  C5. A duplicate subscription is rejected before writing. For a string email that is
  not yet subscribed, with storage available, the first POST /api/subscribe answers 201
  with success true and appends one document; a second one with the same email answers
  400 "Email already subscribed.", makes no insert and leaves the database as it was, so
  the collection has gained exactly one document. Whatever the outside world answers, a
  collection whose documents have pairwise different emails stays so.
\<close>

theorem subscribe_once_per_email:
  assumes "property body ''email'' = Str a"
  shows "(find_ok e \<and> insert_ok e \<and> find_ok e'
          \<and> findOne db ''subscriptions'' ''email'' (Str a) = None \<longrightarrow>
            outcome (subscribe e db body)
              = respond 201 (success_message True ''Thank you for subscribing!'')
          \<and> store (subscribe e db body)
              = db(''subscriptions'' := db ''subscriptions''
                     @ [[(''email'', Str a), (''createdAt'', Date (now e))]])
          \<and> outcome (subscribe e' (store (subscribe e db body)) body)
              = respond 400 (success_message False ''Email already subscribed.'')
          \<and> \<not> list_ex is_insert (calls (subscribe e' (store (subscribe e db body)) body))
          \<and> store (subscribe e' (store (subscribe e db body)) body) = store (subscribe e db body)
          \<and> length (store (subscribe e' (store (subscribe e db body)) body) ''subscriptions'')
              = length (db ''subscriptions'') + 1)
       \<and> (distinct (map (\<lambda>d. property d ''email'') (db ''subscriptions'')) \<longrightarrow>
            distinct (map (\<lambda>d. property d ''email'')
              (store (subscribe e db body) ''subscriptions'')))"
proof (rule conjI)
  let ?d = "[(''email'', Str a), (''createdAt'', Date (now e))]"
  let ?db1 = "db(''subscriptions'' := db ''subscriptions'' @ [?d])"
  show "find_ok e \<and> insert_ok e \<and> find_ok e'
          \<and> findOne db ''subscriptions'' ''email'' (Str a) = None \<longrightarrow>
            outcome (subscribe e db body)
              = respond 201 (success_message True ''Thank you for subscribing!'')
          \<and> store (subscribe e db body) = ?db1
          \<and> outcome (subscribe e' (store (subscribe e db body)) body)
              = respond 400 (success_message False ''Email already subscribed.'')
          \<and> \<not> list_ex is_insert (calls (subscribe e' (store (subscribe e db body)) body))
          \<and> store (subscribe e' (store (subscribe e db body)) body) = store (subscribe e db body)
          \<and> length (store (subscribe e' (store (subscribe e db body)) body) ''subscriptions'')
              = length (db ''subscriptions'') + 1"
  proof (rule impI)
  assume h: "find_ok e \<and> insert_ok e \<and> find_ok e'
          \<and> findOne db ''subscriptions'' ''email'' (Str a) = None"
  from h have 1: "subscribe e db body =
       \<lparr>outcome = respond 201 (success_message True ''Thank you for subscribing!''),
        store = ?db1,
        calls = [FindOne ''subscriptions'' (Str a), InsertOne ''subscriptions'' ?d]\<rparr>"
    by (simp add: subscribe_new_email [OF assms])
  from h have "findOne ?db1 ''subscriptions'' ''email'' (Str a) = Some ?d"
    by (intro findOne_after_insert) (simp_all add: property_def)
  with h have 2: "subscribe e' ?db1 body =
       \<lparr>outcome = respond 400 (success_message False ''Email already subscribed.''),
        store = ?db1, calls = [FindOne ''subscriptions'' (Str a)]\<rparr>"
    by (simp add: subscribe_known_email [OF assms])
  show "outcome (subscribe e db body)
              = respond 201 (success_message True ''Thank you for subscribing!'')
          \<and> store (subscribe e db body) = ?db1
          \<and> outcome (subscribe e' (store (subscribe e db body)) body)
              = respond 400 (success_message False ''Email already subscribed.'')
          \<and> \<not> list_ex is_insert (calls (subscribe e' (store (subscribe e db body)) body))
          \<and> store (subscribe e' (store (subscribe e db body)) body) = store (subscribe e db body)
          \<and> length (store (subscribe e' (store (subscribe e db body)) body) ''subscriptions'')
              = length (db ''subscriptions'') + 1"
    by (simp add: 1 2 is_insert_def)
  qed
next
  show "distinct (map (\<lambda>d. property d ''email'') (db ''subscriptions'')) \<longrightarrow>
            distinct (map (\<lambda>d. property d ''email'')
              (store (subscribe e db body) ''subscriptions''))"
    using subscribe_keeps_distinct [of db e body] by (rule impI)
qed


theorem subscribe_once_per_email_witness:
  "property [(''email'', Str ''ann@example.com'')] ''email'' = Str ''ann@example.com''
   \<and> find_ok calm \<and> insert_ok calm
   \<and> findOne empty_db ''subscriptions'' ''email'' (Str ''ann@example.com'') = None
   \<and> outcome (subscribe calm empty_db [(''email'', Str ''ann@example.com'')])
       = respond 201 (success_message True ''Thank you for subscribing!'')
   \<and> outcome (subscribe calm
         (store (subscribe calm empty_db [(''email'', Str ''ann@example.com'')]))
         [(''email'', Str ''ann@example.com'')])
       = respond 400 (success_message False ''Email already subscribed.'')
   \<and> length (store (subscribe calm
         (store (subscribe calm empty_db [(''email'', Str ''ann@example.com'')]))
         [(''email'', Str ''ann@example.com'')]) ''subscriptions'') = 1
   \<and> distinct (map (\<lambda>d. property d ''email'') (empty_db ''subscriptions''))
   \<and> distinct (map (\<lambda>d. property d ''email'')
        (store (subscribe calm empty_db [(''email'', Str ''ann@example.com'')]) ''subscriptions''))"
proof -
  have p: "property [(''email'', Str ''ann@example.com'')] ''email'' = Str ''ann@example.com''"
    by (simp add: property_def)
  have e: "find_ok calm" "insert_ok calm"
    by (simp_all add: calm_def)
  have n: "findOne empty_db ''subscriptions'' ''email'' (Str ''ann@example.com'') = None"
    "distinct (map (\<lambda>d. property d ''email'') (empty_db ''subscriptions''))"
    "length (empty_db ''subscriptions'') = 0"
    by (simp_all add: findOne_def empty_db_def)
  note t = subscribe_once_per_email [OF p, of calm calm empty_db]
  have h: "find_ok calm \<and> insert_ok calm \<and> find_ok calm
          \<and> findOne empty_db ''subscriptions'' ''email'' (Str ''ann@example.com'') = None"
    by (intro conjI) (fact e n)+
  note a = t [THEN conjunct1, THEN mp, OF h]
  note b = t [THEN conjunct2, THEN mp, OF n(2)]
  from a have "length (store (subscribe calm
         (store (subscribe calm empty_db [(''email'', Str ''ann@example.com'')]))
         [(''email'', Str ''ann@example.com'')]) ''subscriptions'')
       = length (empty_db ''subscriptions'') + 1"
    by (elim conjE)
  then have c: "length (store (subscribe calm
         (store (subscribe calm empty_db [(''email'', Str ''ann@example.com'')]))
         [(''email'', Str ''ann@example.com'')]) ''subscriptions'') = 1"
    by (simp add: n(3))
  from a b c p e n(1,2) show ?thesis
    by blast
qed

subsection \<open>Sign-up and sign-in\<close>

lemma get_started_200:
  assumes "outcome (get_started bc e db body)
             = respond 200 (success_message True ''Thank you for signing up!'')"
      and "property body ''password'' = Str p"
  shows "store (get_started bc e db body) =
           db(''users'' := db ''users'' @
             [[(''firstName'', property body ''firstName''),
               (''lastName'', property body ''lastName''),
               (''email'', property body ''email''),
               (''phone'', property body ''phone''),
               (''password'', Str (bcrypt_hash bc p (salt e))),
               (''goals'', property body ''goals'')]])"
  using assms
  by (simp add: get_started_def Let_def respond_def success_message_def insertOne_def
        split: if_splits)

lemma signin_found:
  assumes "find_ok e"
      and "findOne db ''users'' ''email'' (property body ''email'') = Some user"
      and "property body ''password'' = Str q"
      and "property user ''password'' = Str h"
  shows "outcome (signin bc e db body) =
           (if bcrypt_compare bc q h
            then respond 200 (Obj [(''success'', Bool True),
                                   (''message'', Str ''Sign-in successful!''),
                                   (''user'', Obj user)])
            else respond 401 (success_message False ''Invalid email or password''))"
  using assms by (simp add: signin_def Let_def)

lemma signin_not_found:
  assumes "find_ok e"
      and "findOne db ''users'' ''email'' (property body ''email'') = None"
  shows "outcome (signin bc e db body) = respond 404 (success_message False ''User not found'')"
  using assms by (simp add: signin_def Let_def)

lemma signin_200:
  assumes "outcome (signin bc e db body) = Responded rsp" and "status rsp = 200"
  shows "\<exists>user p h. findOne db ''users'' ''email'' (property body ''email'') = Some user
           \<and> property body ''password'' = Str p \<and> property user ''password'' = Str h
           \<and> bcrypt_compare bc p h
           \<and> json rsp = Obj [(''success'', Bool True), (''message'', Str ''Sign-in successful!''),
                             (''user'', Obj user)]"
  using assms
  by (auto simp: signin_def Let_def respond_def split: if_splits option.splits jsval.splits)

lemma property_Cons:
  "property ((k, v) # rest) k' = (if k = k' then v else property rest k')"
  by (simp add: property_def)

lemma property_Str_member: "property d k = Str h \<Longrightarrow> (k, Str h) \<in> set d"
  by (auto simp: property_def split: option.splits dest: map_of_SomeD)

lemma findOne_member: "findOne db c f v = Some d \<Longrightarrow> d \<in> set (db c) \<and> property d f = v"
  by (auto simp: findOne_def dest: find_Some_holds)

lemma ann_db_users:
  "ann_db = empty_db(''users'' :=
     [[(''firstName'', Str ''Ann''), (''lastName'', Str ''Lee''),
       (''email'', Str ''ann@example.com''), (''phone'', Str ''555-0100''),
       (''password'', Str ''$2a$10$secret123''), (''goals'', Arr [Str ''strength''])]])"
  by (simp add: ann_db_def get_started_def signup_body_def property_def calm_def
        model_bcrypt_def insertOne_def empty_db_def Let_def)

lemma signup_ann_outcome:
  "outcome (get_started model_bcrypt calm db (signup_body a p))
     = respond 200 (success_message True ''Thank you for signing up!'')"
  by (simp add: get_started_def signup_body_def property_def calm_def Let_def)

lemma signup_ann_store:
  "store (get_started model_bcrypt calm db (signup_body a p))
     = db(''users'' := db ''users'' @
         [[(''firstName'', Str ''Ann''), (''lastName'', Str ''Lee''),
           (''email'', Str a), (''phone'', Str ''555-0100''),
           (''password'', Str (''$2a$10$'' @ p)), (''goals'', Arr [Str ''strength''])]])"
  by (simp add: get_started_def signup_body_def property_def calm_def
        model_bcrypt_def insertOne_def Let_def)

lemma signin_ann_outcome:
  "outcome (signin model_bcrypt calm ann_db (credentials ''ann@example.com'' ''secret123''))
     = Responded \<lparr>status = 200,
         json = Obj [(''success'', Bool True), (''message'', Str ''Sign-in successful!''),
           (''user'', Obj [(''firstName'', Str ''Ann''), (''lastName'', Str ''Lee''),
              (''email'', Str ''ann@example.com''), (''phone'', Str ''555-0100''),
              (''password'', Str ''$2a$10$secret123''),
              (''goals'', Arr [Str ''strength''])])]\<rparr>"
  unfolding ann_db_users
  by (simp add: signin_def credentials_def property_def findOne_def calm_def
        model_bcrypt_def empty_db_def Let_def respond_def)

lemma signin_after_signup:
  assumes "property body ''email'' = Str a"
      and "property body ''password'' = Str p"
      and "outcome (get_started bc e db body)
             = respond 200 (success_message True ''Thank you for signing up!'')"
      and "findOne db ''users'' ''email'' (Str a) = None"
      and "find_ok e'"
  shows "(\<exists>user. store (get_started bc e db body) = db(''users'' := db ''users'' @ [user])
            \<and> property user ''email'' = Str a
            \<and> property user ''password'' = Str (bcrypt_hash bc p (salt e))
            \<and> (\<forall>body' q. property body' ''email'' = Str a \<and> property body' ''password'' = Str q \<longrightarrow>
                  outcome (signin bc e' (store (get_started bc e db body)) body') =
                    (if bcrypt_compare bc q (bcrypt_hash bc p (salt e))
                     then respond 200 (Obj [(''success'', Bool True),
                                            (''message'', Str ''Sign-in successful!''),
                                            (''user'', Obj user)])
                     else respond 401 (success_message False ''Invalid email or password''))))
       \<and> (\<forall>body'. findOne (store (get_started bc e db body)) ''users'' ''email''
                      (property body' ''email'') = None \<longrightarrow>
              outcome (signin bc e' (store (get_started bc e db body)) body')
                = respond 404 (success_message False ''User not found''))"
proof (rule conjI)
  let ?user = "[(''firstName'', property body ''firstName''),
               (''lastName'', property body ''lastName''),
               (''email'', property body ''email''),
               (''phone'', property body ''phone''),
               (''password'', Str (bcrypt_hash bc p (salt e))),
               (''goals'', property body ''goals'')]"
  let ?db1 = "db(''users'' := db ''users'' @ [?user])"
  have st: "store (get_started bc e db body) = ?db1"
    by (rule get_started_200 [OF assms(3) assms(2)])
  have em: "property ?user ''email'' = Str a"
    by (simp add: property_Cons assms(1))
  have pw: "property ?user ''password'' = Str (bcrypt_hash bc p (salt e))"
    by (simp add: property_Cons)
  have fo: "findOne ?db1 ''users'' ''email'' (Str a) = Some ?user"
    using assms(4) em by (rule findOne_after_insert)
  have si: "\<forall>body' q. property body' ''email'' = Str a \<and> property body' ''password'' = Str q \<longrightarrow>
        outcome (signin bc e' ?db1 body') =
          (if bcrypt_compare bc q (bcrypt_hash bc p (salt e))
           then respond 200 (Obj [(''success'', Bool True),
                                  (''message'', Str ''Sign-in successful!''),
                                  (''user'', Obj ?user)])
           else respond 401 (success_message False ''Invalid email or password''))"
  proof (intro allI impI)
    fix body' q
    assume b: "property body' ''email'' = Str a \<and> property body' ''password'' = Str q"
    with fo have "findOne ?db1 ''users'' ''email'' (property body' ''email'') = Some ?user"
      by simp
    from signin_found [OF assms(5) this _ pw, of q bc] b
    show "outcome (signin bc e' ?db1 body') =
          (if bcrypt_compare bc q (bcrypt_hash bc p (salt e))
           then respond 200 (Obj [(''success'', Bool True),
                                  (''message'', Str ''Sign-in successful!''),
                                  (''user'', Obj ?user)])
           else respond 401 (success_message False ''Invalid email or password''))"
      by simp
  qed
  from st em pw si
  show "\<exists>user. store (get_started bc e db body) = db(''users'' := db ''users'' @ [user])
            \<and> property user ''email'' = Str a
            \<and> property user ''password'' = Str (bcrypt_hash bc p (salt e))
            \<and> (\<forall>body' q. property body' ''email'' = Str a \<and> property body' ''password'' = Str q \<longrightarrow>
                  outcome (signin bc e' (store (get_started bc e db body)) body') =
                    (if bcrypt_compare bc q (bcrypt_hash bc p (salt e))
                     then respond 200 (Obj [(''success'', Bool True),
                                            (''message'', Str ''Sign-in successful!''),
                                            (''user'', Obj user)])
                     else respond 401 (success_message False ''Invalid email or password'')))"
    by (intro exI [of _ ?user]) (simp only: simp_thms)
next
  show "\<forall>body'. findOne (store (get_started bc e db body)) ''users'' ''email''
                      (property body' ''email'') = None \<longrightarrow>
              outcome (signin bc e' (store (get_started bc e db body)) body')
                = respond 404 (success_message False ''User not found'')"
    using signin_not_found [OF assms(5)] by blast
qed

text \<open>
  C1, as amended. Let a sign-up with a string email and a string password be answered
  with 200, let no user document with that email exist before it, and let
  \<open>bcrypt.compare\<close> accept the submitted password against the hash \<open>bcrypt.hash\<close> made of
  it. Then the users collection has gained one document, with that email and with that
  hash as its password. While storage is available, a sign-in with the same email and the
  same password is answered with 200, success true and that document; a sign-in with the
  same email and a password that \<open>bcrypt.compare\<close> rejects against the stored hash is
  answered with 401; in every case the answer is 200 or 401 as \<open>bcrypt.compare\<close> decides
  on the stored hash, not by an equality on plaintext. A sign-in with an email for which
  no user document exists is answered with 404.
\<close>

theorem signup_then_signin:
  assumes "property body ''email'' = Str a"
      and "property body ''password'' = Str p"
      and "outcome (get_started bc e db body)
             = respond 200 (success_message True ''Thank you for signing up!'')"
      and "findOne db ''users'' ''email'' (Str a) = None"
      and "find_ok e'"
      and "bcrypt_compare bc p (bcrypt_hash bc p (salt e))"
  shows "(\<exists>user. store (get_started bc e db body) = db(''users'' := db ''users'' @ [user])
            \<and> property user ''email'' = Str a
            \<and> property user ''password'' = Str (bcrypt_hash bc p (salt e))
            \<and> (\<forall>body'. property body' ''email'' = Str a \<and> property body' ''password'' = Str p \<longrightarrow>
                  outcome (signin bc e' (store (get_started bc e db body)) body') =
                    respond 200 (Obj [(''success'', Bool True),
                                      (''message'', Str ''Sign-in successful!''),
                                      (''user'', Obj user)]))
            \<and> (\<forall>body' q. property body' ''email'' = Str a \<and> property body' ''password'' = Str q
                    \<and> \<not> bcrypt_compare bc q (bcrypt_hash bc p (salt e)) \<longrightarrow>
                  outcome (signin bc e' (store (get_started bc e db body)) body') =
                    respond 401 (success_message False ''Invalid email or password''))
            \<and> (\<forall>body' q. property body' ''email'' = Str a \<and> property body' ''password'' = Str q \<longrightarrow>
                  outcome (signin bc e' (store (get_started bc e db body)) body') =
                    (if bcrypt_compare bc q (bcrypt_hash bc p (salt e))
                     then respond 200 (Obj [(''success'', Bool True),
                                            (''message'', Str ''Sign-in successful!''),
                                            (''user'', Obj user)])
                     else respond 401 (success_message False ''Invalid email or password''))))
       \<and> (\<forall>body'. findOne (store (get_started bc e db body)) ''users'' ''email''
                      (property body' ''email'') = None \<longrightarrow>
              outcome (signin bc e' (store (get_started bc e db body)) body')
                = respond 404 (success_message False ''User not found''))"
proof (rule conjI)
  note g = signin_after_signup [OF assms(1-5)]
  from g [THEN conjunct1] obtain user where
    st: "store (get_started bc e db body) = db(''users'' := db ''users'' @ [user])"
    and em: "property user ''email'' = Str a"
    and pw: "property user ''password'' = Str (bcrypt_hash bc p (salt e))"
    and si: "\<forall>body' q. property body' ''email'' = Str a \<and> property body' ''password'' = Str q \<longrightarrow>
        outcome (signin bc e' (store (get_started bc e db body)) body') =
          (if bcrypt_compare bc q (bcrypt_hash bc p (salt e))
           then respond 200 (Obj [(''success'', Bool True),
                                  (''message'', Str ''Sign-in successful!''),
                                  (''user'', Obj user)])
           else respond 401 (success_message False ''Invalid email or password''))"
    by blast
  have same: "\<forall>body'. property body' ''email'' = Str a \<and> property body' ''password'' = Str p \<longrightarrow>
        outcome (signin bc e' (store (get_started bc e db body)) body') =
          respond 200 (Obj [(''success'', Bool True),
                            (''message'', Str ''Sign-in successful!''),
                            (''user'', Obj user)])"
  proof (intro allI impI)
    fix body'
    assume "property body' ''email'' = Str a \<and> property body' ''password'' = Str p"
    from si [rule_format, OF this] assms(6)
    show "outcome (signin bc e' (store (get_started bc e db body)) body') =
          respond 200 (Obj [(''success'', Bool True),
                            (''message'', Str ''Sign-in successful!''),
                            (''user'', Obj user)])"
      by simp
  qed
  have other: "\<forall>body' q. property body' ''email'' = Str a \<and> property body' ''password'' = Str q
          \<and> \<not> bcrypt_compare bc q (bcrypt_hash bc p (salt e)) \<longrightarrow>
        outcome (signin bc e' (store (get_started bc e db body)) body') =
          respond 401 (success_message False ''Invalid email or password'')"
  proof (intro allI impI)
    fix body' q
    assume h: "property body' ''email'' = Str a \<and> property body' ''password'' = Str q
          \<and> \<not> bcrypt_compare bc q (bcrypt_hash bc p (salt e))"
    then have "property body' ''email'' = Str a \<and> property body' ''password'' = Str q"
      by simp
    from si [rule_format, OF this] h
    show "outcome (signin bc e' (store (get_started bc e db body)) body') =
          respond 401 (success_message False ''Invalid email or password'')"
      by simp
  qed
  from st em pw same other si
  show "\<exists>user. store (get_started bc e db body) = db(''users'' := db ''users'' @ [user])
            \<and> property user ''email'' = Str a
            \<and> property user ''password'' = Str (bcrypt_hash bc p (salt e))
            \<and> (\<forall>body'. property body' ''email'' = Str a \<and> property body' ''password'' = Str p \<longrightarrow>
                  outcome (signin bc e' (store (get_started bc e db body)) body') =
                    respond 200 (Obj [(''success'', Bool True),
                                      (''message'', Str ''Sign-in successful!''),
                                      (''user'', Obj user)]))
            \<and> (\<forall>body' q. property body' ''email'' = Str a \<and> property body' ''password'' = Str q
                    \<and> \<not> bcrypt_compare bc q (bcrypt_hash bc p (salt e)) \<longrightarrow>
                  outcome (signin bc e' (store (get_started bc e db body)) body') =
                    respond 401 (success_message False ''Invalid email or password''))
            \<and> (\<forall>body' q. property body' ''email'' = Str a \<and> property body' ''password'' = Str q \<longrightarrow>
                  outcome (signin bc e' (store (get_started bc e db body)) body') =
                    (if bcrypt_compare bc q (bcrypt_hash bc p (salt e))
                     then respond 200 (Obj [(''success'', Bool True),
                                            (''message'', Str ''Sign-in successful!''),
                                            (''user'', Obj user)])
                     else respond 401 (success_message False ''Invalid email or password'')))"
    by (intro exI [of _ user] conjI)
next
  from signin_after_signup [OF assms(1-5), THEN conjunct2]
  show "\<forall>body'. findOne (store (get_started bc e db body)) ''users'' ''email''
                      (property body' ''email'') = None \<longrightarrow>
              outcome (signin bc e' (store (get_started bc e db body)) body')
                = respond 404 (success_message False ''User not found'')" .
qed

theorem signup_then_signin_witness:
  "property (signup_body ''ann@example.com'' ''secret123'') ''email'' = Str ''ann@example.com''
   \<and> property (signup_body ''ann@example.com'' ''secret123'') ''password'' = Str ''secret123''
   \<and> outcome (get_started model_bcrypt calm empty_db (signup_body ''ann@example.com'' ''secret123''))
       = respond 200 (success_message True ''Thank you for signing up!'')
   \<and> findOne empty_db ''users'' ''email'' (Str ''ann@example.com'') = None
   \<and> find_ok calm
   \<and> bcrypt_compare model_bcrypt ''secret123''
        (bcrypt_hash model_bcrypt ''secret123'' (salt calm))
   \<and> \<not> bcrypt_compare model_bcrypt ''wrong''
        (bcrypt_hash model_bcrypt ''secret123'' (salt calm))
   \<and> outcome (signin model_bcrypt calm ann_db (credentials ''ann@example.com'' ''secret123''))
       = respond 200 (Obj [(''success'', Bool True), (''message'', Str ''Sign-in successful!''),
           (''user'', Obj [(''firstName'', Str ''Ann''), (''lastName'', Str ''Lee''),
              (''email'', Str ''ann@example.com''), (''phone'', Str ''555-0100''),
              (''password'', Str ''$2a$10$secret123''),
              (''goals'', Arr [Str ''strength''])])])
   \<and> outcome (signin model_bcrypt calm ann_db (credentials ''ann@example.com'' ''wrong''))
       = respond 401 (success_message False ''Invalid email or password'')
   \<and> outcome (signin model_bcrypt calm ann_db (credentials ''bob@example.com'' ''secret123''))
       = respond 404 (success_message False ''User not found'')"
proof -
  let ?body = "signup_body ''ann@example.com'' ''secret123''"
  let ?doc = "[(''firstName'', Str ''Ann''), (''lastName'', Str ''Lee''),
              (''email'', Str ''ann@example.com''), (''phone'', Str ''555-0100''),
              (''password'', Str ''$2a$10$secret123''),
              (''goals'', Arr [Str ''strength''])]"
  have h1: "property ?body ''email'' = Str ''ann@example.com''"
    and h2: "property ?body ''password'' = Str ''secret123''"
    by (simp_all add: signup_body_def property_def)
  have h3: "outcome (get_started model_bcrypt calm empty_db ?body)
       = respond 200 (success_message True ''Thank you for signing up!'')"
    by (rule signup_ann_outcome)
  have h4: "findOne empty_db ''users'' ''email'' (Str ''ann@example.com'') = None"
    by (simp add: findOne_def empty_db_def)
  have h5: "find_ok calm"
    by (simp add: calm_def)
  have h6: "bcrypt_compare model_bcrypt ''secret123''
        (bcrypt_hash model_bcrypt ''secret123'' (salt calm))"
    by (simp add: model_bcrypt_def)
  have r: "\<not> bcrypt_compare model_bcrypt ''wrong''
        (bcrypt_hash model_bcrypt ''secret123'' (salt calm))"
    by (simp add: model_bcrypt_def)
  note t = signup_then_signin [OF h1 h2 h3 h4 h5 h6, folded ann_db_def]
  from t [THEN conjunct1] obtain user where
    st: "ann_db = empty_db(''users'' := empty_db ''users'' @ [user])"
    and same: "\<forall>body'. property body' ''email'' = Str ''ann@example.com''
                \<and> property body' ''password'' = Str ''secret123'' \<longrightarrow>
        outcome (signin model_bcrypt calm ann_db body') =
          respond 200 (Obj [(''success'', Bool True),
                            (''message'', Str ''Sign-in successful!''),
                            (''user'', Obj user)])"
    and other: "\<forall>body' q. property body' ''email'' = Str ''ann@example.com''
                \<and> property body' ''password'' = Str q
                \<and> \<not> bcrypt_compare model_bcrypt q
                      (bcrypt_hash model_bcrypt ''secret123'' (salt calm)) \<longrightarrow>
        outcome (signin model_bcrypt calm ann_db body') =
          respond 401 (success_message False ''Invalid email or password'')"
    by blast
  from st have "ann_db ''users'' = empty_db ''users'' @ [user]"
    by (simp add: fun_eq_iff)
  then have u: "user = ?doc"
    by (simp add: ann_db_users empty_db_def)
  have c: "property (credentials ''ann@example.com'' q) ''email'' = Str ''ann@example.com''
       \<and> property (credentials ''ann@example.com'' q) ''password'' = Str q" for q
    by (simp add: credentials_def property_def)
  from same [rule_format, OF c [of "''secret123''"]]
  have ok: "outcome (signin model_bcrypt calm ann_db (credentials ''ann@example.com'' ''secret123''))
       = respond 200 (Obj [(''success'', Bool True), (''message'', Str ''Sign-in successful!''),
           (''user'', Obj ?doc)])"
    unfolding u .
  from c [of "''wrong''"] r
  have "property (credentials ''ann@example.com'' ''wrong'') ''email'' = Str ''ann@example.com''
       \<and> property (credentials ''ann@example.com'' ''wrong'') ''password'' = Str ''wrong''
       \<and> \<not> bcrypt_compare model_bcrypt ''wrong''
              (bcrypt_hash model_bcrypt ''secret123'' (salt calm))"
    by blast
  from other [rule_format, OF this]
  have no: "outcome (signin model_bcrypt calm ann_db (credentials ''ann@example.com'' ''wrong''))
       = respond 401 (success_message False ''Invalid email or password'')" .
  have "findOne ann_db ''users'' ''email''
          (property (credentials ''bob@example.com'' ''secret123'') ''email'') = None"
    unfolding ann_db_users
    by (simp add: findOne_def credentials_def property_def empty_db_def)
  from t [THEN conjunct2, rule_format, OF this]
  have nf: "outcome (signin model_bcrypt calm ann_db (credentials ''bob@example.com'' ''secret123''))
       = respond 404 (success_message False ''User not found'')" .
  from h1 h2 h3 h4 h5 h6 r ok no nf show ?thesis
    by blast
qed

text \<open>
  C1 as stated fails when the email is registered already: user emails are not checked
  for uniqueness, and \<open>findOne\<close> returns the oldest document. Ann is registered with the
  password secret123; a second sign-up with her email and the password hunter2 is answered
  with 200, and the sign-in with that email and hunter2 is answered with 401.
\<close>

theorem signup_then_signin_counterexample:
  "outcome (get_started model_bcrypt calm ann_db (signup_body ''ann@example.com'' ''hunter2''))
     = respond 200 (success_message True ''Thank you for signing up!'')
   \<and> outcome (signin model_bcrypt calm
        (store (get_started model_bcrypt calm ann_db (signup_body ''ann@example.com'' ''hunter2'')))
        (credentials ''ann@example.com'' ''hunter2''))
     = respond 401 (success_message False ''Invalid email or password'')"
proof -
  have "outcome (signin model_bcrypt calm
        (store (get_started model_bcrypt calm ann_db (signup_body ''ann@example.com'' ''hunter2'')))
        (credentials ''ann@example.com'' ''hunter2''))
     = respond 401 (success_message False ''Invalid email or password'')"
    unfolding signup_ann_store ann_db_users
    by (simp add: signin_def credentials_def property_def findOne_def calm_def
          model_bcrypt_def empty_db_def Let_def)
  with signup_ann_outcome [of ann_db "''ann@example.com''" "''hunter2''"] show ?thesis
    by (rule conjI)
qed

text \<open>
  C6. A sign-in answered with status 200 carries, under \<open>user\<close>, the very document
  \<open>findOne\<close> returned from the users collection, with no field removed: its password
  field, the stored hash, is in the response.
\<close>

theorem signin_returns_stored_document:
  assumes "outcome (signin bc e db body) = Responded rsp" and "status rsp = 200"
  shows "\<exists>user h. findOne db ''users'' ''email'' (property body ''email'') = Some user
           \<and> user \<in> set (db ''users'')
           \<and> json rsp = Obj [(''success'', Bool True), (''message'', Str ''Sign-in successful!''),
                             (''user'', Obj user)]
           \<and> property user ''password'' = Str h
           \<and> (''password'', Str h) \<in> set user"
proof -
  from signin_200 [OF assms] obtain user h where
    u: "findOne db ''users'' ''email'' (property body ''email'') = Some user"
    and h: "property user ''password'' = Str h"
    and j: "json rsp = Obj [(''success'', Bool True), (''message'', Str ''Sign-in successful!''),
                             (''user'', Obj user)]"
    by blast
  from u have "user \<in> set (db ''users'')" by (auto dest: findOne_member)
  moreover from h have "(''password'', Str h) \<in> set user" by (rule property_Str_member)
  ultimately show ?thesis using u h j by blast
qed

theorem signin_returns_stored_document_witness:
  "outcome (signin model_bcrypt calm ann_db (credentials ''ann@example.com'' ''secret123''))
     = Responded \<lparr>status = 200,
         json = Obj [(''success'', Bool True), (''message'', Str ''Sign-in successful!''),
           (''user'', Obj [(''firstName'', Str ''Ann''), (''lastName'', Str ''Lee''),
              (''email'', Str ''ann@example.com''), (''phone'', Str ''555-0100''),
              (''password'', Str ''$2a$10$secret123''),
              (''goals'', Arr [Str ''strength''])])]\<rparr>
   \<and> (\<exists>user h. findOne ann_db ''users'' ''email''
                    (property (credentials ''ann@example.com'' ''secret123'') ''email'') = Some user
          \<and> user \<in> set (ann_db ''users'')
          \<and> Obj [(''success'', Bool True), (''message'', Str ''Sign-in successful!''),
               (''user'', Obj [(''firstName'', Str ''Ann''), (''lastName'', Str ''Lee''),
                  (''email'', Str ''ann@example.com''), (''phone'', Str ''555-0100''),
                  (''password'', Str ''$2a$10$secret123''),
                  (''goals'', Arr [Str ''strength''])])]
              = Obj [(''success'', Bool True), (''message'', Str ''Sign-in successful!''),
                     (''user'', Obj user)]
          \<and> property user ''password'' = Str h
          \<and> (''password'', Str h) \<in> set user)"
  using signin_returns_stored_document [OF signin_ann_outcome] signin_ann_outcome
  by simp

subsection \<open>Errors at the request boundary\<close>

text \<open>Where a handler answers: /api/subscribe and /signin always, /chat and /get-started
  exactly for a string message and a string password.\<close>

lemma subscribe_always_responds: "\<exists>rsp. outcome (subscribe e db body) = Responded rsp"
  by (simp add: subscribe_def Let_def respond_def split: option.splits)

lemma signin_always_responds: "\<exists>rsp. outcome (signin bc e db body) = Responded rsp"
  by (simp add: signin_def Let_def respond_def split: option.splits jsval.splits)

lemma chat_responds_iff:
  "(\<exists>rsp. outcome (chat e db body) = Responded rsp) \<longleftrightarrow> (\<exists>m. property body ''message'' = Str m)"
  by (simp add: chat_def Let_def respond_def split: jsval.splits)

lemma get_started_responds_iff:
  "(\<exists>rsp. outcome (get_started bc e db body) = Responded rsp)
     \<longleftrightarrow> (\<exists>p. property body ''password'' = Str p)"
  by (simp add: get_started_def Let_def respond_def split: jsval.splits)

text \<open>
  C7 fails on the code. POST /chat with the body \<open>{}\<close> calls \<open>toLowerCase\<close> on
  \<open>undefined\<close> outside any \<open>try\<close>: a TypeError leaves the handler, nothing is logged and
  no response is sent. POST /get-started without a password awaits \<open>bcrypt.hash\<close> outside
  its \<open>try\<close>: the rejection leaves the handler before anything is stored.
\<close>

theorem missing_field_escapes_handler:
  "outcome (chat e db []) = Unhandled TypeError
   \<and> calls (chat e db []) = []
   \<and> store (chat e db []) = db
   \<and> outcome (get_started bc e db [(''firstName'', Str ''Ann''), (''email'', Str ''ann@example.com'')])
       = Unhandled IllegalArguments
   \<and> calls (get_started bc e db [(''firstName'', Str ''Ann''), (''email'', Str ''ann@example.com'')])
       = []"
  by (simp add: chat_def get_started_def property_def Let_def)



end
